theory Spec2Isabelle
  imports Complex_Main "HOL-Library.AList"
begin

section \<open>Python values and library functions\<close>

text \<open>
  Conventions of the embedding.
  \<^item> A Python \<open>float\<close> is modelled by the real number it denotes. Arithmetic whose result
    is only ever used as a float is exact real arithmetic (rounding error is not modelled).
    Arithmetic whose result is truncated to an integer that then selects list elements
    (\<open>np.linspace(..., dtype=int)\<close>, the colour interpolation) goes through a rounding
    function \<open>fl\<close>, the rounding of an exact result to binary64, so that the discrete
    outcome is the one the code computes. \<open>fl\<close> is a parameter; the theorems assume of it
    only what \<open>ieee_rounding\<close> says, which exact arithmetic (\<open>fl = id\<close>) satisfies too.
  \<^item> A \<open>str\<close> is a \<open>string\<close> whose characters are code points below 256.
  \<^item> A \<open>dict\<close> with string keys is an association list in insertion order, read with
    \<open>map_of\<close>; a JSON object with a fixed set of optional members is a record of options.
  \<^item> An exception is a value of \<open>py_error\<close>; a function that can raise returns a sum.
  \<^item> The builtin \<open>float(s)\<close> is the parameter \<open>to_float\<close>: \<open>Some x\<close> when it returns
    \<open>x\<close>, \<open>None\<close> when it raises \<open>ValueError\<close>. The values \<open>inf\<close> and \<open>nan\<close>, which
    \<open>float\<close> also returns, are not reals and are outside the model.
\<close>

datatype py_error =
  ValueError | IndexError | KeyError | AttributeError | TypeError | OverflowError

type_synonym tags = "(string \<times> string) list"

text \<open>\<open>key in d\<close> for a dict.\<close>

definition has_key :: "string \<Rightarrow> (string \<times> 'v) list \<Rightarrow> bool" where
  "has_key k d \<longleftrightarrow> map_of d k \<noteq> None"

text \<open>\<open>d.get(key, default)\<close>.\<close>

definition get_default :: "(string \<times> 'v) list \<Rightarrow> string \<Rightarrow> 'v \<Rightarrow> 'v" where
  "get_default d k dflt = (case map_of d k of None \<Rightarrow> dflt | Some v \<Rightarrow> v)"

text \<open>
  \<open>d.get(key) or rest\<close>: Python's \<open>or\<close> yields its left operand when that is truthy;
  \<open>None\<close> and the empty string are falsy.
\<close>

definition get_or :: "tags \<Rightarrow> string \<Rightarrow> string \<Rightarrow> string" where
  "get_or d k rest = (case map_of d k of None \<Rightarrow> rest | Some v \<Rightarrow> if v = [] then rest else v)"

text \<open>\<open>str.isspace\<close> on one character, and \<open>str.split()\<close> with no separator.\<close>

definition is_space :: "char \<Rightarrow> bool" where
  "is_space c \<longleftrightarrow> (of_char c :: nat) \<in> {9, 10, 11, 12, 13, 28, 29, 30, 31, 32, 133, 160}"

fun split_from :: "string \<Rightarrow> string \<Rightarrow> string list" where
  "split_from cur [] = (if cur = [] then [] else [rev cur])"
| "split_from cur (c # cs) =
     (if is_space c then (if cur = [] then split_from [] cs else rev cur # split_from [] cs)
      else split_from (c # cur) cs)"

definition split :: "string \<Rightarrow> string list" where
  "split s = split_from [] s"

text \<open>
  \<open>str.capitalize()\<close> on the code points below 256: the first character is put in title
  case, the others in lower case. The letters are the ASCII ones and those of Latin-1
  (192 to 222 without the sign 215, 224 to 254 without the sign 247); the sharp s (223)
  has the title case \<open>Ss\<close>. The capitals of the micro sign (181) and of the y with
  diaeresis (255) are code points above 255: a string that begins with one of them is
  outside the model, and \<open>title_char\<close> leaves it as it is.
\<close>

definition title_char :: "char \<Rightarrow> string" where
  "title_char c =
     (let n = (of_char c :: nat)
      in if n = 223 then ''Ss''
         else if (97 \<le> n \<and> n \<le> 122) \<or> (224 \<le> n \<and> n \<le> 254 \<and> n \<noteq> 247)
              then [char_of (n - 32)]
              else [c])"

definition lower_char :: "char \<Rightarrow> char" where
  "lower_char c =
     (let n = (of_char c :: nat)
      in if (65 \<le> n \<and> n \<le> 90) \<or> (192 \<le> n \<and> n \<le> 222 \<and> n \<noteq> 215)
         then char_of (n + 32)
         else c)"

definition capitalize :: "string \<Rightarrow> string" where
  "capitalize s = (case s of [] \<Rightarrow> [] | c # cs \<Rightarrow> title_char c @ map lower_char cs)"

text \<open>\<open>int(x)\<close> on a float: truncation towards zero.\<close>

definition trunc :: "real \<Rightarrow> int" where
  "trunc x = (if 0 \<le> x then \<lfloor>x\<rfloor> else \<lceil>x\<rceil>)"

text \<open>
  What the theorems assume of the rounding \<open>fl\<close> of binary64 arithmetic: it is monotone,
  exact on the integers up to \<open>2^53\<close> in magnitude, and has relative error at most
  \<open>2^-53\<close> on the magnitudes between 1 and \<open>2^1023\<close>.
\<close>

definition ieee_rounding :: "(real \<Rightarrow> real) \<Rightarrow> bool" where
  "ieee_rounding fl \<longleftrightarrow>
     (\<forall>x y. x \<le> y \<longrightarrow> fl x \<le> fl y) \<and>
     (\<forall>k::int. \<bar>k\<bar> \<le> 2 ^ 53 \<longrightarrow> fl (of_int k) = of_int k) \<and>
     (\<forall>x. 1 \<le> \<bar>x\<bar> \<and> \<bar>x\<bar> \<le> 2 ^ 1023 \<longrightarrow> \<bar>fl x - x\<bar> \<le> \<bar>x\<bar> / 2 ^ 53)"

section \<open>Configuration (config/settings.py)\<close>

text \<open>
  The settings the modelled functions read. The three counts are parsed with \<open>int\<close> from
  the environment; they are modelled as naturals (a configuration with a negative count is
  outside the model).
\<close>

record settings =
  MAX_RETRIES :: nat
  MAX_FEATURES :: nat
  MAX_ELEVATION_POINTS :: nat
  ENABLE_CACHE :: bool
  CACHE_TTL :: int

definition default_settings :: settings where
  "default_settings =
     \<lparr> MAX_RETRIES = 3, MAX_FEATURES = 1000, MAX_ELEVATION_POINTS = 100,
       ENABLE_CACHE = True, CACHE_TTL = 3600 \<rparr>"

section \<open>Elevation service (services/elevation\_service.py)\<close>

type_synonym coord = "real \<times> real"

text \<open>
  The format specification \<open>.5f\<close>: five decimals, ties to even, sign kept (a negative
  number that rounds to zero prints as \<open>-0.00000\<close>). The real 0 stands for both zeros of
  binary64: the float \<open>-0.0\<close> prints as \<open>-0.00000\<close> in the code and as \<open>0.00000\<close> here,
  so a coordinate list that holds the float \<open>-0.0\<close> is outside the model. What the
  theorems on the elevation service say does not depend on how a key is spelled, only on
  which coordinates the cache holds.
\<close>

fun digits_of :: "nat \<Rightarrow> string" where
  "digits_of n = (if n < 10 then [char_of (48 + n)] else digits_of (n div 10) @ [char_of (48 + n mod 10)])"

declare digits_of.simps [simp del]

definition round_half_even :: "real \<Rightarrow> int" where
  "round_half_even x =
     (let f = \<lfloor>x\<rfloor>; d = x - of_int f
      in if d < 1 / 2 then f else if 1 / 2 < d then f + 1 else if even f then f else f + 1)"

definition format_5f :: "real \<Rightarrow> string" where
  "format_5f x =
     (let q = nat (round_half_even (\<bar>x\<bar> * 100000));
          frac = digits_of (q mod 100000)
      in (if x < 0 then ''-'' else '''') @ digits_of (q div 100000) @ ''.'' @
         replicate (5 - length frac) (CHR ''0'') @ frac)"

definition cache_key :: "coord \<Rightarrow> string" where
  "cache_key c = format_5f (fst c) @ '','' @ format_5f (snd c)"

text \<open>
  \<open>np.linspace(0, stop, num, dtype=int)\<close>: numpy computes \<open>step = stop / (num - 1)\<close> and
  \<open>i * step\<close> in binary64 (each result rounded by \<open>fl\<close>), overwrites the last sample with
  \<open>stop\<close>, and takes the floor. A step that rounds to zero takes numpy's other path,
  \<open>(i / (num - 1)) * stop\<close>.
\<close>

definition linspace_sample :: "(real \<Rightarrow> real) \<Rightarrow> nat \<Rightarrow> nat \<Rightarrow> nat \<Rightarrow> real" where
  "linspace_sample fl stop num i =
     (let dv = real (num - 1); step = fl (real stop / dv)
      in if i = num - 1 then real stop
         else if step = 0 then fl (fl (real i / dv) * real stop)
         else fl (real i * step))"

definition linspace_int :: "(real \<Rightarrow> real) \<Rightarrow> nat \<Rightarrow> nat \<Rightarrow> nat list" where
  "linspace_int fl stop num =
     (if num = 0 then []
      else if num = 1 then [0]
      else map (\<lambda>i. nat \<lfloor>linspace_sample fl stop num i\<rfloor>) [0..<num])"

text \<open>
  The cache maps a key to the cached elevation; \<open>None\<close> is Python's \<open>None\<close> (a JSON
  \<open>null\<close> that was cached).
\<close>

type_synonym elevation_cache = "(string \<times> real option) list"

record location =
  latitude :: real
  longitude :: real

text \<open>
  One entry of the provider's \<open>results\<close>: something that is not an object, or an object
  whose member \<open>elevation\<close> is absent, \<open>null\<close> or a number.
\<close>

datatype api_result = NotAnObject | Object "real option option"

text \<open>
  What the request yields: \<open>Failed\<close> when \<open>requests.post\<close>, \<open>raise_for_status\<close>,
  \<open>response.json()\<close> or the read of \<open>results\<close> raises (timeout, HTTP error, network
  error, malformed body), otherwise the list of results.
\<close>

datatype provider_reply = Failed | Results "api_result list"

text \<open>The first loop: one slot per coordinate, the misses collected with their indices.\<close>

fun scan_cache ::
  "bool \<Rightarrow> elevation_cache \<Rightarrow> nat \<Rightarrow> coord list \<Rightarrow> real option list \<times> coord list \<times> nat list" where
  "scan_cache en cache i [] = ([], [], [])"
| "scan_cache en cache i (c # cs) =
     (case scan_cache en cache (Suc i) cs of (es, fetch, idxs) \<Rightarrow>
        (case (if en then map_of cache (cache_key c) else None) of
           Some v \<Rightarrow> (v # es, fetch, idxs)
         | None \<Rightarrow> (None # es, c # fetch, i # idxs)))"

text \<open>
  The loop over the results inside \<open>try\<close>. It mutates \<open>elevations\<close> and the cache in
  place, so what it did before an exception stays done: the result carries the exception,
  if any, with both.
\<close>

fun store_results ::
  "bool \<Rightarrow> coord list \<Rightarrow> nat list \<Rightarrow> nat \<Rightarrow> api_result list \<Rightarrow> real option list \<Rightarrow> elevation_cache
     \<Rightarrow> py_error option \<times> real option list \<times> elevation_cache" where
  "store_results en fetch idxs i [] es cache = (None, es, cache)"
| "store_results en fetch idxs i (r # rs) es cache =
     (case r of
        NotAnObject \<Rightarrow> (Some AttributeError, es, cache)
      | Object m \<Rightarrow>
          (let elevation = (case m of None \<Rightarrow> Some 0 | Some v \<Rightarrow> v)
           in if length idxs \<le> i then (Some IndexError, es, cache)
              else store_results en fetch idxs (Suc i) rs (es[idxs ! i := elevation])
                     (if en then AList.update (cache_key (fetch ! i)) elevation cache else cache)))"

record elevation_outcome =
  elevations :: "real list"
  cache_after :: elevation_cache
  requested :: "location list option"

text \<open>
  Lines 49 to 100: the cache scan, the request, the handler and the final clean-up. The
  handler catches \<open>Exception\<close>, so the class of the exception a failed request raises
  plays no part; \<open>ValueError\<close> stands for it.
\<close>

definition fetch_elevations ::
  "settings \<Rightarrow> (location list \<Rightarrow> provider_reply) \<Rightarrow> elevation_cache \<Rightarrow> coord list \<Rightarrow> elevation_outcome" where
  "fetch_elevations cfg provider cache coords_list =
     (case scan_cache (ENABLE_CACHE cfg) cache 0 coords_list of (es, fetch, idxs) \<Rightarrow>
        if fetch = [] then
          \<lparr> elevations = map (\<lambda>e. case e of None \<Rightarrow> 0 | Some x \<Rightarrow> x) es,
            cache_after = cache, requested = None \<rparr>
        else
          (let locations = map (\<lambda>(lon, lat). \<lparr> latitude = lat, longitude = lon \<rparr>) fetch;
               (err, es1, cache1) =
                 (case provider locations of
                    Failed \<Rightarrow> (Some ValueError, es, cache)
                  | Results rs \<Rightarrow> store_results (ENABLE_CACHE cfg) fetch idxs 0 rs es cache);
               es2 = (case err of
                        None \<Rightarrow> es1
                      | Some e \<Rightarrow> map (\<lambda>e. case e of None \<Rightarrow> Some 0 | Some x \<Rightarrow> Some x) es1)
           in \<lparr> elevations = map (\<lambda>e. case e of None \<Rightarrow> 0 | Some x \<Rightarrow> x) es2,
                cache_after = cache1, requested = Some locations \<rparr>))"

text \<open>
  \<open>[coords_list[i] for i in indices]\<close>: an index outside the list raises \<open>IndexError\<close>.
\<close>

fun select :: "'a list \<Rightarrow> nat list \<Rightarrow> py_error + 'a list" where
  "select xs [] = Inr []"
| "select xs (i # is) =
     (if i < length xs then (case select xs is of Inl e \<Rightarrow> Inl e | Inr ys \<Rightarrow> Inr (xs ! i # ys))
      else Inl IndexError)"

definition get_elevation_data ::
  "(real \<Rightarrow> real) \<Rightarrow> settings \<Rightarrow> (location list \<Rightarrow> provider_reply) \<Rightarrow> elevation_cache \<Rightarrow> coord list
     \<Rightarrow> py_error + elevation_outcome" where
  "get_elevation_data fl cfg provider cache coords_list =
     (if coords_list = [] then Inr \<lparr> elevations = [], cache_after = cache, requested = None \<rparr>
      else if MAX_ELEVATION_POINTS cfg < length coords_list then
        (case select coords_list
                (linspace_int fl (length coords_list - 1) (MAX_ELEVATION_POINTS cfg)) of
           Inl e \<Rightarrow> Inl e
         | Inr sampled \<Rightarrow> Inr (fetch_elevations cfg provider cache sampled))
      else Inr (fetch_elevations cfg provider cache coords_list))"

section \<open>Feature classification (utils/data\_processing.py)\<close>

text \<open>An element of the raw response and an entry of a way's \<open>geometry\<close>.\<close>

record geometry_ref =
  ref_lat :: "real option"
  ref_lon :: "real option"

record element =
  el_type :: "string option"
  el_id :: "int option"
  el_tags :: "tags option"
  el_lat :: "real option"
  el_lon :: "real option"
  el_nodes :: "int list option"
  el_members :: "int list option"
  el_geometry :: "geometry_ref list option"

text \<open>The dictionaries the pipeline appends to its four lists, and the one it returns.\<close>

record point_dict =
  p_coordinates :: coord
  p_name :: string
  p_type :: string
  p_element_id :: "int option"
  p_tags :: tags

record building_dict =
  b_coordinates :: "coord list"
  b_name :: string
  b_height :: real
  b_element_id :: "int option"
  b_color :: "int list"
  b_tags :: tags

record road_dict =
  r_coordinates :: "coord list"
  r_name :: string
  r_width :: real
  r_element_id :: "int option"
  r_type :: string
  r_tags :: tags

record polygon_dict =
  g_coordinates :: "coord list"
  g_name :: string
  g_type :: string
  g_element_id :: "int option"
  g_tags :: tags

record map_data =
  res_buildings :: "building_dict list"
  res_roads :: "road_dict list"
  res_points :: "point_dict list"
  res_polygons :: "polygon_dict list"
  res_terrain_elevation :: real

definition element_tags :: "element \<Rightarrow> tags" where
  "element_tags e = (case el_tags e of None \<Rightarrow> [] | Some t \<Rightarrow> t)"

definition base_heights :: "(string \<times> real) list" where
  "base_heights =
     [(''apartments'', 15), (''residential'', 8), (''house'', 6), (''detached'', 6),
      (''commercial'', 10), (''industrial'', 8), (''office'', 15), (''retail'', 6),
      (''warehouse'', 8), (''church'', 15), (''cathedral'', 25), (''mosque'', 15),
      (''temple'', 15), (''synagogue'', 15), (''school'', 9), (''university'', 12),
      (''hospital'', 15), (''hotel'', 15), (''train_station'', 12), (''stadium'', 20),
      (''yes'', 8)]"

text \<open>
  The two \<open>try\<close> bodies of \<open>estimate_building_height\<close>. The first can raise
  \<open>IndexError\<close> (no token) and \<open>ValueError\<close> (\<open>float\<close>), the second \<open>ValueError\<close>; these
  are the exceptions their handlers name.
\<close>

definition try_height :: "(string \<Rightarrow> real option) \<Rightarrow> string \<Rightarrow> real \<Rightarrow> py_error + real" where
  "try_height to_float h height_factor =
     (case split h of
        [] \<Rightarrow> Inl IndexError
      | height_str # _ \<Rightarrow>
          (case to_float height_str of None \<Rightarrow> Inl ValueError | Some x \<Rightarrow> Inr (x * height_factor)))"

definition try_levels :: "(string \<Rightarrow> real option) \<Rightarrow> string \<Rightarrow> real \<Rightarrow> py_error + real" where
  "try_levels to_float l height_factor =
     (case to_float l of None \<Rightarrow> Inl ValueError | Some levels \<Rightarrow> Inr (levels * 3 * height_factor))"

definition type_height :: "tags \<Rightarrow> real \<Rightarrow> real" where
  "type_height tgs height_factor =
     get_default base_heights (get_default tgs ''building'' ''yes'') 8 * height_factor"

definition levels_height :: "(string \<Rightarrow> real option) \<Rightarrow> tags \<Rightarrow> real \<Rightarrow> real" where
  "levels_height to_float tgs height_factor =
     (case map_of tgs ''building:levels'' of
        None \<Rightarrow> type_height tgs height_factor
      | Some l \<Rightarrow>
          (case try_levels to_float l height_factor of
             Inr r \<Rightarrow> r
           | Inl e \<Rightarrow> type_height tgs height_factor))"

definition estimate_building_height :: "(string \<Rightarrow> real option) \<Rightarrow> tags \<Rightarrow> real \<Rightarrow> real" where
  "estimate_building_height to_float tgs height_factor =
     (case map_of tgs ''height'' of
        None \<Rightarrow> levels_height to_float tgs height_factor
      | Some h \<Rightarrow>
          (case try_height to_float h height_factor of
             Inr r \<Rightarrow> r
           | Inl e \<Rightarrow> levels_height to_float tgs height_factor))"

definition color_scheme :: "(string \<times> int list) list" where
  "color_scheme =
     [(''apartments'', [102, 102, 156, 200]), (''residential'', [102, 102, 156, 200]),
      (''house'', [119, 119, 165, 200]), (''detached'', [119, 119, 165, 200]),
      (''commercial'', [99, 99, 184, 200]), (''industrial'', [150, 150, 150, 200]),
      (''office'', [74, 140, 247, 200]), (''retail'', [61, 129, 224, 200]),
      (''warehouse'', [150, 150, 150, 200]), (''church'', [251, 140, 0, 200]),
      (''cathedral'', [251, 140, 0, 200]), (''mosque'', [251, 140, 0, 200]),
      (''temple'', [251, 140, 0, 200]), (''synagogue'', [251, 140, 0, 200]),
      (''school'', [255, 128, 128, 200]), (''university'', [255, 100, 100, 200]),
      (''hospital'', [226, 122, 171, 200]), (''hotel'', [51, 163, 255, 200]),
      (''train_station'', [51, 163, 255, 200]), (''stadium'', [54, 202, 155, 200]),
      (''yes'', [74, 140, 247, 200])]"

definition get_building_color :: "tags \<Rightarrow> int list" where
  "get_building_color tgs =
     get_default color_scheme (get_default tgs ''building'' ''yes'') [74, 140, 247, 200]"

definition width_scheme :: "(string \<times> real) list" where
  "width_scheme =
     [(''motorway'', 4), (''trunk'', 7 / 2), (''primary'', 3), (''secondary'', 5 / 2),
      (''tertiary'', 2), (''residential'', 3 / 2), (''service'', 1), (''footway'', 1 / 2),
      (''cycleway'', 1 / 2), (''path'', 1 / 2), (''track'', 1), (''unclassified'', 3 / 2),
      (''road'', 3 / 2)]"

definition get_road_width :: "string \<Rightarrow> real" where
  "get_road_width highway_type = get_default width_scheme highway_type (3 / 2)"

definition process_building ::
  "(string \<Rightarrow> real option) \<Rightarrow> element \<Rightarrow> coord list \<Rightarrow> building_dict list \<Rightarrow> real \<Rightarrow> building_dict list" where
  "process_building to_float e coords buildings building_height_factor =
     (let tgs = element_tags e
      in buildings @
         [\<lparr> b_coordinates = coords,
            b_name = get_default tgs ''name'' ''Building'',
            b_height = estimate_building_height to_float tgs building_height_factor,
            b_element_id = el_id e,
            b_color = get_building_color tgs,
            b_tags = tgs \<rparr>])"

definition process_road :: "element \<Rightarrow> coord list \<Rightarrow> road_dict list \<Rightarrow> road_dict list" where
  "process_road e coords roads =
     (let tgs = element_tags e;
          highway_type = get_default tgs ''highway'' ''road''
      in roads @
         [\<lparr> r_coordinates = coords,
            r_name = get_default tgs ''name'' (capitalize highway_type),
            r_width = get_road_width highway_type,
            r_element_id = el_id e,
            r_type = highway_type,
            r_tags = tgs \<rparr>])"

definition process_polygon :: "element \<Rightarrow> coord list \<Rightarrow> polygon_dict list \<Rightarrow> polygon_dict list" where
  "process_polygon e coords polygons =
     (let tgs = element_tags e;
          polygon_type = get_or tgs ''landuse'' (get_or tgs ''natural'' (get_or tgs ''leisure'' ''other''))
      in polygons @
         [\<lparr> g_coordinates = coords,
            g_name = get_default tgs ''name'' (capitalize polygon_type @ '' Area''),
            g_type = polygon_type,
            g_element_id = el_id e,
            g_tags = tgs \<rparr>])"

text \<open>The coordinates of a way: the entries of \<open>geometry\<close> that have both members.\<close>

definition way_coords :: "element \<Rightarrow> coord list" where
  "way_coords e =
     concat (map (\<lambda>r. case (ref_lat r, ref_lon r) of
                         (Some la, Some lo) \<Rightarrow> [(lo, la)]
                       | _ \<Rightarrow> [])
                 (case el_geometry e of None \<Rightarrow> [] | Some g \<Rightarrow> g))"

definition process_way ::
  "(string \<Rightarrow> real option) \<Rightarrow> element \<Rightarrow> building_dict list \<times> road_dict list \<times> polygon_dict list \<Rightarrow> real
     \<Rightarrow> building_dict list \<times> road_dict list \<times> polygon_dict list" where
  "process_way to_float e acc building_height_factor =
     (case acc of (buildings, roads, polygons) \<Rightarrow>
        (let tgs = element_tags e; coords = way_coords e
         in if coords = [] then (buildings, roads, polygons)
            else if has_key ''building'' tgs then
              (process_building to_float e coords buildings building_height_factor, roads, polygons)
            else if has_key ''highway'' tgs then
              (buildings, process_road e coords roads, polygons)
            else if (case el_geometry e of None \<Rightarrow> False | Some g \<Rightarrow> g \<noteq> []) \<and> hd coords = last coords then
              (buildings, roads, process_polygon e coords polygons)
            else (buildings, roads, polygons)))"

text \<open>\<open>element["lon"]\<close> and \<open>element["lat"]\<close> raise \<open>KeyError\<close> on a missing key.\<close>

definition process_node :: "element \<Rightarrow> point_dict list \<Rightarrow> py_error + point_dict list" where
  "process_node e points =
     (let tgs = element_tags e
      in if tgs = [] then Inr points
         else
           (let point_type =
                  get_or tgs ''amenity'' (get_or tgs ''shop'' (get_or tgs ''tourism''
                    (get_or tgs ''historic'' (get_or tgs ''leisure'' ''point''))));
                name = get_default tgs ''name'' (capitalize point_type)
            in case el_lon e of
                 None \<Rightarrow> Inl KeyError
               | Some lon \<Rightarrow>
                   (case el_lat e of
                      None \<Rightarrow> Inl KeyError
                    | Some lat \<Rightarrow>
                        Inr (points @
                             [\<lparr> p_coordinates = (lon, lat), p_name = name, p_type = point_type,
                                p_element_id = el_id e, p_tags = tgs \<rparr>]))))"

text \<open>The body of the loop over the elements, on the four lists.\<close>

type_synonym feature_lists =
  "building_dict list \<times> road_dict list \<times> point_dict list \<times> polygon_dict list"

definition process_element ::
  "(string \<Rightarrow> real option) \<Rightarrow> real \<Rightarrow> element \<Rightarrow> feature_lists \<Rightarrow> py_error + feature_lists" where
  "process_element to_float building_height_factor e acc =
     (case acc of (buildings, roads, points, polygons) \<Rightarrow>
        if el_type e = Some ''node'' \<and> el_lat e \<noteq> None \<and> el_lon e \<noteq> None then
          (case process_node e points of
             Inl err \<Rightarrow> Inl err
           | Inr points' \<Rightarrow> Inr (buildings, roads, points', polygons))
        else if el_type e = Some ''way'' \<and> el_nodes e \<noteq> None then
          (case process_way to_float e (buildings, roads, polygons) building_height_factor of
             (buildings', roads', polygons') \<Rightarrow> Inr (buildings', roads', points, polygons'))
        else Inr (buildings, roads, points, polygons))"

fun process_elements ::
  "(string \<Rightarrow> real option) \<Rightarrow> real \<Rightarrow> element list \<Rightarrow> feature_lists \<Rightarrow> py_error + feature_lists" where
  "process_elements to_float f [] acc = Inr acc"
| "process_elements to_float f (e # es) acc =
     (case process_element to_float f e acc of
        Inl err \<Rightarrow> Inl err
      | Inr acc' \<Rightarrow> process_elements to_float f es acc')"

text \<open>
  The raw response is \<open>None\<close> when \<open>data\<close> is falsy or has no \<open>elements\<close>. The result
  carries the elevation cache, which the call of \<open>get_elevation_data\<close> may have updated.
  The test \<open>all(coord for ...)\<close> is over two-element lists, which are truthy, so the
  condition of the elevation step is that there is a building.
\<close>

definition process_overpass_results ::
  "(string \<Rightarrow> real option) \<Rightarrow> (real \<Rightarrow> real) \<Rightarrow> settings \<Rightarrow> (location list \<Rightarrow> provider_reply)
     \<Rightarrow> elevation_cache \<Rightarrow> element list option \<Rightarrow> real \<Rightarrow> py_error + map_data option \<times> elevation_cache" where
  "process_overpass_results to_float fl cfg provider cache data building_height_factor =
     (case data of
        None \<Rightarrow> Inr (None, cache)
      | Some all_elements \<Rightarrow>
          (case process_elements to_float building_height_factor
                  (take (MAX_FEATURES cfg) all_elements) ([], [], [], []) of
             Inl err \<Rightarrow> Inl err
           | Inr (buildings, roads, points, polygons) \<Rightarrow>
               (let all_coords = concat (map b_coordinates buildings)
                in if buildings \<noteq> [] then
                     (case get_elevation_data fl cfg provider cache (take 100 all_coords) of
                        Inl err \<Rightarrow> Inl err
                      | Inr out \<Rightarrow>
                          Inr (Some \<lparr> res_buildings = buildings, res_roads = roads,
                                      res_points = points, res_polygons = polygons,
                                      res_terrain_elevation =
                                        (if elevations out \<noteq> []
                                         then sum_list (elevations out) / real (length (elevations out))
                                         else 0) \<rparr>,
                               cache_after out))
                   else
                     Inr (Some \<lparr> res_buildings = buildings, res_roads = roads,
                                 res_points = points, res_polygons = polygons,
                                 res_terrain_elevation = 0 \<rparr>,
                          cache))))"

section \<open>Overpass service (services/overpass\_service.py)\<close>

text \<open>
  The cache maps a query to its entry, the data with the timestamp of its storage, in
  insertion order. Storing under a present key keeps its position.
\<close>

type_synonym 'd query_cache = "(string \<times> 'd \<times> real) list"

text \<open>
  What \<open>int(e.response.headers.get("Retry-After", 2 ** retries))\<close> finds: no header, a
  header that \<open>int\<close> parses, or one on which \<open>int\<close> raises \<open>ValueError\<close> (an HTTP date,
  for instance).
\<close>

datatype retry_after = NoHeader | IntHeader int | BadHeader

text \<open>
  What one pass through the \<open>try\<close> block meets: a response whose body parses, a
  \<open>requests.exceptions.Timeout\<close>, an \<open>HTTPError\<close> raised by \<open>raise_for_status\<close> with its
  status code and header, or any other exception (connection error, malformed JSON).
\<close>

datatype 'd attempt = Ok 'd | Timeout | HTTPError nat retry_after | OtherError

record 'd overpass_outcome =
  returned :: "py_error + 'd option"
  sleeps :: "int list"
  attempts_made :: nat
  query_cache_after :: "'d query_cache"

text \<open>Lines 61 to 73: the entry is stored; beyond 100 entries the 10 oldest are deleted.\<close>

definition store_query :: "string \<Rightarrow> 'd \<Rightarrow> real \<Rightarrow> 'd query_cache \<Rightarrow> 'd query_cache" where
  "store_query query d now cache =
     (let cache1 = AList.update query (d, now) cache
      in if 100 < length cache1 then
           (let sorted_keys = map fst (sort_key (\<lambda>entry. snd (snd entry)) cache1)
            in filter (\<lambda>entry. fst entry \<notin> set (take 10 sorted_keys)) cache1)
         else cache1)"

text \<open>
  \<open>time.sleep(secs)\<close> on an \<open>int\<close>, as CPython 3.11 has it: the length is converted to
  nanoseconds in a signed 64-bit integer, which raises \<open>OverflowError\<close> for a length beyond
  9223372036 seconds in magnitude; a negative length that converts raises \<open>ValueError\<close>;
  any other length is slept. \<open>None\<close> is the normal return.
\<close>

definition sleep_max :: int where
  "sleep_max = 9223372036"

definition sleep :: "int \<Rightarrow> py_error option" where
  "sleep secs =
     (if secs < - sleep_max \<or> sleep_max < secs then Some OverflowError
      else if secs < 0 then Some ValueError
      else None)"

text \<open>\<open>int(e.response.headers.get("Retry-After", 2 ** retries))\<close>.\<close>

definition retry_after_seconds :: "retry_after \<Rightarrow> nat \<Rightarrow> py_error + int" where
  "retry_after_seconds hdr retries =
     (case hdr of
        NoHeader \<Rightarrow> Inr (2 ^ retries)
      | IntHeader k \<Rightarrow> Inr k
      | BadHeader \<Rightarrow> Inl ValueError)"

text \<open>
  The \<open>while\<close> loop. The attempt number equals \<open>retries\<close>, since every pass that does not
  return adds one. An exception raised inside a handler (by \<open>int\<close> or by \<open>time.sleep\<close>)
  leaves the function; \<open>slept\<close> lists the pauses that were slept.
\<close>

function retry_loop ::
  "nat \<Rightarrow> (nat \<Rightarrow> 'd attempt) \<Rightarrow> nat \<Rightarrow> int list \<Rightarrow> (py_error + 'd option) \<times> int list \<times> nat" where
  "retry_loop max_retries env retries slept =
     (if retries < max_retries then
        (case env retries of
           Ok d \<Rightarrow> (Inr (Some d), slept, Suc retries)
         | Timeout \<Rightarrow>
             (if Suc retries < max_retries then
                (case sleep (2 ^ Suc retries) of
                   Some err \<Rightarrow> (Inl err, slept, Suc retries)
                 | None \<Rightarrow>
                     retry_loop max_retries env (Suc retries) (slept @ [2 ^ Suc retries]))
              else retry_loop max_retries env (Suc retries) slept)
         | HTTPError status_code hdr \<Rightarrow>
             (if status_code = 429 then
                (if Suc retries < max_retries then
                   (case retry_after_seconds hdr (Suc retries) of
                      Inl err \<Rightarrow> (Inl err, slept, Suc retries)
                    | Inr retry_after \<Rightarrow>
                        (case sleep retry_after of
                           Some err \<Rightarrow> (Inl err, slept, Suc retries)
                         | None \<Rightarrow>
                             retry_loop max_retries env (Suc retries) (slept @ [retry_after])))
                 else retry_loop max_retries env (Suc retries) slept)
              else (Inr None, slept, Suc retries))
         | OtherError \<Rightarrow> (Inr None, slept, Suc retries))
      else (Inr None, slept, retries))"
  by pat_completeness auto
termination
  by (relation "measure (\<lambda>(max_retries, env, retries, slept). max_retries - retries)") auto

declare retry_loop.simps [simp del]

text \<open>
  Lines 39 to 43: the data the cache serves, if any. The cache is read only when it is
  enabled; an entry as old as \<open>CACHE_TTL\<close> is not served (it stays in the cache).
\<close>

definition cache_hit :: "settings \<Rightarrow> real \<Rightarrow> 'd query_cache \<Rightarrow> string \<Rightarrow> 'd option" where
  "cache_hit cfg now cache query =
     (if ENABLE_CACHE cfg then
        (case map_of cache query of
           None \<Rightarrow> None
         | Some (d, timestamp) \<Rightarrow>
             if now - timestamp < real_of_int (CACHE_TTL cfg) then Some d else None)
      else None)"

text \<open>
  \<open>t_lookup\<close> and \<open>t_store\<close> are what \<open>time.time()\<close> returns at the cache lookup and when
  the entry is stored.
\<close>

definition query_overpass ::
  "settings \<Rightarrow> (nat \<Rightarrow> 'd attempt) \<Rightarrow> real \<Rightarrow> real \<Rightarrow> 'd query_cache \<Rightarrow> string \<Rightarrow> 'd overpass_outcome" where
  "query_overpass cfg env t_lookup t_store cache query =
     (case cache_hit cfg t_lookup cache query of
        Some d \<Rightarrow>
          \<lparr> returned = Inr (Some d), sleeps = [], attempts_made = 0, query_cache_after = cache \<rparr>
      | None \<Rightarrow>
          (case retry_loop (MAX_RETRIES cfg) env 0 [] of
             (Inr (Some d), slept, n) \<Rightarrow>
               \<lparr> returned = Inr (Some d), sleeps = slept, attempts_made = n,
                 query_cache_after =
                   (if ENABLE_CACHE cfg then store_query query d t_store cache else cache) \<rparr>
           | (r, slept, n) \<Rightarrow>
               \<lparr> returned = r, sleeps = slept, attempts_made = n, query_cache_after = cache \<rparr>))"

section \<open>Colour scales (utils/visualization.py)\<close>

text \<open>
  \<open>a[i]\<close> on the first axis of a numpy array: a negative index counts from the end, an
  index outside raises \<open>IndexError\<close>.
\<close>

definition np_index :: "'a list \<Rightarrow> int \<Rightarrow> py_error + 'a" where
  "np_index rows k =
     (if 0 \<le> k \<and> k < int (length rows) then Inr (rows ! nat k)
      else if k < 0 \<and> - int (length rows) \<le> k then Inr (rows ! nat (int (length rows) + k))
      else Inl IndexError)"

definition get_color_for_value ::
  "(real \<Rightarrow> real) \<Rightarrow> real \<Rightarrow> real \<Rightarrow> real \<Rightarrow> int list list \<Rightarrow> py_error + int list" where
  "get_color_for_value fl v min_v max_v colors =
     (let value_range = fl (max_v - min_v);
          normalized = (if value_range = 0 then 1 / 2 else fl (fl (v - min_v) / value_range));
          clamped = max 0 (min 1 normalized);
          color_index = fl (clamped * real_of_int (int (length colors) - 1));
          lower_idx = trunc color_index;
          upper_idx = min (lower_idx + 1) (int (length colors) - 1);
          weight = fl (color_index - real_of_int lower_idx)
      in case np_index colors lower_idx of
           Inl e \<Rightarrow> Inl e
         | Inr lower \<Rightarrow>
             (case np_index colors upper_idx of
                Inl e \<Rightarrow> Inl e
              | Inr upper \<Rightarrow>
                  Inr (map trunc
                         (map2 (\<lambda>a b. fl (fl (fl (1 - weight) * real_of_int a) + fl (weight * real_of_int b)))
                            lower upper)
                       @ [255])))"

record color_scale =
  cs_min_value :: real
  cs_max_value :: real
  cs_colors :: "int list list"
  normalize :: "real \<Rightarrow> real"
  get_color :: "real \<Rightarrow> py_error + int list"

definition default_color_range :: "int list list" where
  "default_color_range =
     [[65, 105, 225], [100, 149, 237], [135, 206, 250], [176, 224, 230], [255, 255, 255],
      [255, 228, 196], [255, 165, 0], [255, 69, 0], [255, 0, 0]]"

definition generate_color_scale ::
  "(real \<Rightarrow> real) \<Rightarrow> real \<Rightarrow> real \<Rightarrow> int list list option \<Rightarrow> color_scale" where
  "generate_color_scale fl min_v max_v color_range =
     (let colors = (case color_range of None \<Rightarrow> default_color_range | Some cr \<Rightarrow> cr);
          value_range = (if max_v - min_v = 0 then 1 else max_v - min_v)
      in \<lparr> cs_min_value = min_v,
           cs_max_value = max_v,
           cs_colors = colors,
           normalize = (\<lambda>x. (x - min_v) / value_range),
           get_color = (\<lambda>x. get_color_for_value fl x min_v max_v colors) \<rparr>)"

section \<open>Data model (models/geo\_data.py)\<close>

text \<open>
  The module is a sequence of \<open>@dataclass\<close> class statements, run in order when it is
  imported. The decorator collects the fields of the class, those of its dataclass bases
  first and then its own in the order of their annotations, and writes \<open>__init__\<close> with
  one parameter for each; as in any parameter list, a field without a default may not
  follow one with a default, and the decorator raises \<open>TypeError\<close> if one does. A field is
  given here by its name and whether it has a default (\<open>= value\<close> or
  \<open>= field(default_factory=...)\<close>). No class of the module redefines a field of its base,
  or uses \<open>kw_only\<close> or \<open>init=False\<close>.
\<close>

type_synonym field_spec = "string \<times> bool"

fun init_params_ok :: "bool \<Rightarrow> field_spec list \<Rightarrow> bool" where
  "init_params_ok seen_default [] = True"
| "init_params_ok seen_default ((field_name, has_default) # rest) =
     (if has_default then init_params_ok True rest
      else if seen_default then False
      else init_params_ok False rest)"

definition dataclass :: "field_spec list \<Rightarrow> field_spec list \<Rightarrow> py_error + field_spec list" where
  "dataclass base_fields own_fields =
     (let all_fields = base_fields @ own_fields
      in if init_params_ok False all_fields then Inr all_fields else Inl TypeError)"

text \<open>The fields each class statement declares itself, in source order.\<close>

definition Coordinate_fields :: "field_spec list" where
  "Coordinate_fields = [(''lon'', False), (''lat'', False)]"

definition BoundingBox_fields :: "field_spec list" where
  "BoundingBox_fields =
     [(''min_lon'', False), (''min_lat'', False), (''max_lon'', False), (''max_lat'', False)]"

definition OSMTag_fields :: "field_spec list" where
  "OSMTag_fields = [(''key'', False), (''value'', False)]"

definition GeoFeature_fields :: "field_spec list" where
  "GeoFeature_fields =
     [(''id'', False), (''name'', False), (''feature_type'', False), (''tags'', True)]"

definition Point_fields :: "field_spec list" where
  "Point_fields = [(''coordinate'', False)]"

definition Road_fields :: "field_spec list" where
  "Road_fields = [(''coordinates'', False), (''width'', True)]"

definition Building_fields :: "field_spec list" where
  "Building_fields = [(''coordinates'', False), (''height'', True), (''color'', True)]"

definition Polygon_fields :: "field_spec list" where
  "Polygon_fields = [(''coordinates'', False)]"

definition GeoDataCollection_fields :: "field_spec list" where
  "GeoDataCollection_fields =
     [(''buildings'', True), (''roads'', True), (''points'', True), (''polygons'', True),
      (''terrain_elevation'', True)]"

text \<open>
  Importing the module: the class statements of lines 9 to 239, the first exception ending
  the import. \<open>Point\<close>, \<open>Road\<close>, \<open>Building\<close> and \<open>Polygon\<close> derive from \<open>GeoFeature\<close>.
\<close>

definition import_geo_data :: "py_error + unit" where
  "import_geo_data =
     (case dataclass [] Coordinate_fields of Inl err \<Rightarrow> Inl err | Inr coordinate_cls \<Rightarrow>
      case dataclass [] BoundingBox_fields of Inl err \<Rightarrow> Inl err | Inr bounding_box_cls \<Rightarrow>
      case dataclass [] OSMTag_fields of Inl err \<Rightarrow> Inl err | Inr osm_tag_cls \<Rightarrow>
      case dataclass [] GeoFeature_fields of Inl err \<Rightarrow> Inl err | Inr geo_feature_cls \<Rightarrow>
      case dataclass geo_feature_cls Point_fields of Inl err \<Rightarrow> Inl err | Inr point_cls \<Rightarrow>
      case dataclass geo_feature_cls Road_fields of Inl err \<Rightarrow> Inl err | Inr road_cls \<Rightarrow>
      case dataclass geo_feature_cls Building_fields of Inl err \<Rightarrow> Inl err | Inr building_cls \<Rightarrow>
      case dataclass geo_feature_cls Polygon_fields of Inl err \<Rightarrow> Inl err | Inr polygon_cls \<Rightarrow>
      case dataclass [] GeoDataCollection_fields of Inl err \<Rightarrow> Inl err | Inr collection_cls \<Rightarrow>
      Inr ())"

text \<open>
  The instances the classes describe: what the methods below are written for.
\<close>

record Coordinate =
  lon :: real
  lat :: real

record GeoFeature =
  fid :: string
  name :: string
  feature_type :: string
  tags :: tags

record Point = GeoFeature +
  coordinate :: Coordinate

record Road = GeoFeature +
  road_coordinates :: "Coordinate list"
  width :: real

record Building = GeoFeature +
  building_coordinates :: "Coordinate list"
  height :: real
  color :: "int list"

record Polygon = GeoFeature +
  polygon_coordinates :: "Coordinate list"

record GeoDataCollection =
  buildings :: "Building list"
  roads :: "Road list"
  points :: "Point list"
  polygons :: "Polygon list"
  terrain_elevation :: real

text \<open>The helper \<open>matches_tags\<close>: \<open>all\<close> over the items of the requested mapping.\<close>

definition matches_tags :: "tags \<Rightarrow> tags \<Rightarrow> bool" where
  "matches_tags wanted feature_tags =
     list_all (\<lambda>(key, val). has_key key feature_tags \<and> map_of feature_tags key = Some val) wanted"

text \<open>The body of the method, lines 307 to 322.\<close>

definition filter_by_tags_body :: "GeoDataCollection \<Rightarrow> tags \<Rightarrow> GeoDataCollection" where
  "filter_by_tags_body self wanted =
     \<lparr> buildings = filter (\<lambda>b. matches_tags wanted (tags b)) (buildings self),
       roads = filter (\<lambda>r. matches_tags wanted (tags r)) (roads self),
       points = filter (\<lambda>p. matches_tags wanted (tags p)) (points self),
       polygons = filter (\<lambda>p. matches_tags wanted (tags p)) (polygons self),
       terrain_elevation = terrain_elevation self \<rparr>"

text \<open>
  \<open>GeoDataCollection.filter_by_tags\<close> as a program reaches it: the module is imported, then
  the method is called on the collection \<open>self\<close> that the program built. An exception of
  the import is the outcome.
\<close>

definition filter_by_tags :: "GeoDataCollection \<Rightarrow> tags \<Rightarrow> py_error + GeoDataCollection" where
  "filter_by_tags self wanted =
     (case import_geo_data of
        Inl err \<Rightarrow> Inl err
      | Inr loaded \<Rightarrow> Inr (filter_by_tags_body self wanted))"

section \<open>The specification's wording, and example inputs\<close>

text \<open>
  The definitions of this section do not come from the code. They put the wording of the
  specification into HOL, to be compared with the functions above, or fix the concrete
  inputs the examples run on.
\<close>

subsection \<open>Building height\<close>

text \<open>
  The number the \<open>height\<close> tag parses to: its leading whitespace-delimited token, parsed
  as a number (the unit after it is discarded); the number \<open>building:levels\<close> parses to;
  the entry of the base-height table for the value of \<open>building\<close>, 8 when there is none.
\<close>

definition height_tag_number :: "(string \<Rightarrow> real option) \<Rightarrow> tags \<Rightarrow> real option" where
  "height_tag_number to_float tgs =
     (case map_of tgs ''height'' of
        None \<Rightarrow> None
      | Some h \<Rightarrow> (case split h of [] \<Rightarrow> None | token # _ \<Rightarrow> to_float token))"

definition levels_tag_number :: "(string \<Rightarrow> real option) \<Rightarrow> tags \<Rightarrow> real option" where
  "levels_tag_number to_float tgs =
     (case map_of tgs ''building:levels'' of None \<Rightarrow> None | Some l \<Rightarrow> to_float l)"

definition base_height_entry :: "tags \<Rightarrow> real" where
  "base_height_entry tgs =
     (case map_of tgs ''building'' of
        None \<Rightarrow> 8
      | Some b \<Rightarrow> (case map_of base_heights b of None \<Rightarrow> 8 | Some h \<Rightarrow> h))"

text \<open>
  A parser for the examples: it agrees with \<open>float\<close> on the literals made of digits, with
  an optional fraction, and rejects everything else.
\<close>

definition is_digit :: "char \<Rightarrow> bool" where
  "is_digit c \<longleftrightarrow> 48 \<le> (of_char c :: nat) \<and> (of_char c :: nat) \<le> 57"

definition digits_value :: "string \<Rightarrow> nat" where
  "digits_value s = foldl (\<lambda>a c. 10 * a + (of_char c - 48)) 0 s"

definition decimal_literal :: "string \<Rightarrow> real option" where
  "decimal_literal s =
     (let ip = takeWhile is_digit s; rest = dropWhile is_digit s
      in if ip = [] then None
         else if rest = [] then Some (real (digits_value ip))
         else if hd rest = CHR ''.'' \<and> tl rest \<noteq> [] \<and> list_all is_digit (tl rest)
           then Some (real (digits_value ip) + real (digits_value (tl rest)) / 10 ^ length (tl rest))
         else None)"

subsection \<open>Classification of a way\<close>

datatype way_class = AsBuilding | AsRoad | AsPolygon | Dropped

definition classify_way :: "tags \<Rightarrow> coord list \<Rightarrow> way_class" where
  "classify_way tgs coords =
     (if ''building'' \<in> fst ` set tgs then AsBuilding
      else if ''highway'' \<in> fst ` set tgs then AsRoad
      else if hd coords = last coords then AsPolygon
      else Dropped)"

text \<open>
  A closed way tagged both \<open>building\<close> and \<open>highway\<close>, with a \<open>geometry\<close> and without
  \<open>nodes\<close>.
\<close>

definition closed_way :: element where
  "closed_way =
     \<lparr> el_type = Some ''way'', el_id = Some 7,
       el_tags = Some [(''building'', ''yes''), (''highway'', ''service'')],
       el_lat = None, el_lon = None, el_nodes = None, el_members = None,
       el_geometry = Some [\<lparr> ref_lat = Some 0, ref_lon = Some 0 \<rparr>,
                           \<lparr> ref_lat = Some 1, ref_lon = Some 0 \<rparr>,
                           \<lparr> ref_lat = Some 0, ref_lon = Some 0 \<rparr>] \<rparr>"

subsection \<open>Type of a point\<close>

text \<open>
  The type as the specification words it, the value of the first of the five keys that is
  present; and the value of the first of a list of keys whose value is not empty.
\<close>

definition point_type_by_presence :: "tags \<Rightarrow> string" where
  "point_type_by_presence tgs =
     (case map_of tgs ''amenity'' of Some v \<Rightarrow> v | None \<Rightarrow>
      (case map_of tgs ''shop'' of Some v \<Rightarrow> v | None \<Rightarrow>
       (case map_of tgs ''tourism'' of Some v \<Rightarrow> v | None \<Rightarrow>
        (case map_of tgs ''historic'' of Some v \<Rightarrow> v | None \<Rightarrow>
         (case map_of tgs ''leisure'' of Some v \<Rightarrow> v | None \<Rightarrow> ''point'')))))"

fun first_nonempty :: "tags \<Rightarrow> string list \<Rightarrow> string \<Rightarrow> string" where
  "first_nonempty tgs [] dflt = dflt"
| "first_nonempty tgs (k # ks) dflt =
     (case map_of tgs k of
        Some v \<Rightarrow> if v \<noteq> [] then v else first_nonempty tgs ks dflt
      | None \<Rightarrow> first_nonempty tgs ks dflt)"

definition priority_keys :: "string list" where
  "priority_keys = [''amenity'', ''shop'', ''tourism'', ''historic'', ''leisure'']"

definition node_with :: "tags \<Rightarrow> element" where
  "node_with tgs =
     \<lparr> el_type = Some ''node'', el_id = Some 1, el_tags = Some tgs,
       el_lat = Some 0, el_lon = Some 0, el_nodes = None, el_members = None,
       el_geometry = None \<rparr>"

definition point_types :: "py_error + point_dict list \<Rightarrow> string list option" where
  "point_types r = (case r of Inl e \<Rightarrow> None | Inr pts \<Rightarrow> Some (map p_type pts))"

subsection \<open>Filter by tags\<close>

text \<open>Every requested key-value pair matches exactly.\<close>

definition requested_pairs_match :: "tags \<Rightarrow> tags \<Rightarrow> bool" where
  "requested_pairs_match wanted feature_tags \<longleftrightarrow>
     (\<forall>(k, v) \<in> set wanted. map_of feature_tags k = Some v)"

definition office :: Building where
  "office = \<lparr> fid = ''1'', name = ''Office'', feature_type = ''building'',
              tags = [(''building'', ''office''), (''name'', ''Office'')],
              building_coordinates = [], height = 15, color = [74, 140, 247, 200] \<rparr>"

definition house :: Building where
  "house = \<lparr> fid = ''2'', name = ''House'', feature_type = ''building'',
             tags = [(''building'', ''house''), (''name'', ''Office'')],
             building_coordinates = [], height = 6, color = [119, 119, 165, 200] \<rparr>"

definition two_buildings :: GeoDataCollection where
  "two_buildings = \<lparr> buildings = [office, house], roads = [], points = [], polygons = [],
                     terrain_elevation = 12 \<rparr>"

subsection \<open>Retries\<close>

text \<open>
  A transient failure is a timeout or a 429 response. Every other attempt is final: a
  response, a status other than 429, any other exception; \<open>answer\<close> is what the loop
  returns on it. \<open>pause a r\<close> is the pause asked for after the transient failure \<open>a\<close>, the
  \<open>r\<close>-th failed attempt: the integer \<open>Retry-After\<close> of a 429 that carries one, \<open>2 ^ r\<close>
  otherwise. \<open>pause_error a r\<close> is the exception this pause ends in: \<open>ValueError\<close> when the
  \<open>Retry-After\<close> is not an integer, \<open>OverflowError\<close> when the pause is beyond 9223372036
  seconds in magnitude, \<open>ValueError\<close> when it is negative, none otherwise. The loop goes on
  after attempt \<open>j\<close>, with \<open>M\<close> attempts allowed, when the attempt is a transient failure
  and either it is the last one allowed (no pause is taken then) or its pause ends in no
  exception.
\<close>










definition long_hint :: "nat \<Rightarrow> string attempt" where
  "long_hint j = HTTPError 429 (IntHeader 10000000000)"


subsection \<open>Elevations\<close>

text \<open>
  What the cache holds for a coordinate; the elevation of a slot when nothing is fetched
  (the cached number, 0 otherwise); the coordinates that are kept (the input, or its sample
  when it is longer than the maximum); the entry of the request for a coordinate; and a
  list of \<open>n\<close> distinct coordinates.
\<close>

definition cached :: "settings \<Rightarrow> elevation_cache \<Rightarrow> coord \<Rightarrow> real option option" where
  "cached cfg cache c = (if ENABLE_CACHE cfg then map_of cache (cache_key c) else None)"

definition cached_or_zero :: "settings \<Rightarrow> elevation_cache \<Rightarrow> coord \<Rightarrow> real" where
  "cached_or_zero cfg cache c = (case cached cfg cache c of Some (Some x) \<Rightarrow> x | _ \<Rightarrow> 0)"

definition kept_coords :: "(real \<Rightarrow> real) \<Rightarrow> settings \<Rightarrow> coord list \<Rightarrow> coord list" where
  "kept_coords fl cfg cs =
     (if MAX_ELEVATION_POINTS cfg < length cs
      then map (\<lambda>i. cs ! i) (linspace_int fl (length cs - 1) (MAX_ELEVATION_POINTS cfg))
      else cs)"

definition to_location :: "coord \<Rightarrow> location" where
  "to_location c = \<lparr> latitude = snd c, longitude = fst c \<rparr>"

text \<open>
  The misses are the coordinates the cache does not hold, in their order; they are what
  the provider is asked for. The provider's results count one by one up to the first that
  is not an object; the elevation of a result is its number, and 0 when the member
  \<open>elevation\<close> is absent or \<open>null\<close>; a failed request counts as no result. \<open>fill\<close> walks the
  coordinates with the elevations \<open>vs\<close> that came back: a cached coordinate gets the cached
  number (0 for a cached \<open>null\<close>), a miss gets the next of \<open>vs\<close>, and 0 once they are used
  up.
\<close>

definition misses :: "settings \<Rightarrow> elevation_cache \<Rightarrow> coord list \<Rightarrow> coord list" where
  "misses cfg cache cs = filter (\<lambda>c. cached cfg cache c = None) cs"

definition is_object :: "api_result \<Rightarrow> bool" where
  "is_object r \<longleftrightarrow> (case r of NotAnObject \<Rightarrow> False | Object m \<Rightarrow> True)"

definition result_elevation :: "api_result \<Rightarrow> real" where
  "result_elevation r = (case r of Object (Some (Some v)) \<Rightarrow> v | _ \<Rightarrow> 0)"

definition reply_elevations :: "provider_reply \<Rightarrow> real list" where
  "reply_elevations reply =
     (case reply of Failed \<Rightarrow> [] | Results rs \<Rightarrow> map result_elevation (takeWhile is_object rs))"

fun fill :: "settings \<Rightarrow> elevation_cache \<Rightarrow> coord list \<Rightarrow> real list \<Rightarrow> real list" where
  "fill cfg cache [] vs = []"
| "fill cfg cache (c # cs) vs =
     (case cached cfg cache c of
        Some e \<Rightarrow> (case e of None \<Rightarrow> 0 | Some x \<Rightarrow> x) # fill cfg cache cs vs
      | None \<Rightarrow>
          (case vs of
             [] \<Rightarrow> 0 # fill cfg cache cs []
           | v # rest \<Rightarrow> v # fill cfg cache cs rest))"

text \<open>
  Three coordinates, a cache that holds the second with elevation 5, and a provider that
  answers any request with the elevations 7 and 9.
\<close>

definition near_origin :: "coord list" where
  "near_origin = [(0, 0), (1, 0), (2, 0)]"

definition one_cached :: elevation_cache where
  "one_cached = [(cache_key (1, 0), Some 5)]"

definition two_answers :: "location list \<Rightarrow> provider_reply" where
  "two_answers locations = Results [Object (Some (Some 7)), Object (Some (Some 9))]"

definition track :: "nat \<Rightarrow> coord list" where
  "track n = map (\<lambda>i. (real i, 0)) [0..<n]"

subsection \<open>Colour scale\<close>

text \<open>
  The colour at a position of the scale between 0 and 1: the linear interpolation between
  the two nearest anchors at \<open>position * (anchors - 1)\<close>, with the alpha 255 appended.
  A palette is a non-empty array of integer rows of one length, whose entries binary64
  represents exactly.
\<close>

definition color_at_position :: "(real \<Rightarrow> real) \<Rightarrow> real \<Rightarrow> int list list \<Rightarrow> py_error + int list" where
  "color_at_position fl pos colors =
     (let color_index = fl (pos * real_of_int (int (length colors) - 1));
          lower_idx = trunc color_index;
          upper_idx = min (lower_idx + 1) (int (length colors) - 1);
          weight = fl (color_index - real_of_int lower_idx)
      in case np_index colors lower_idx of
           Inl e \<Rightarrow> Inl e
         | Inr lower \<Rightarrow>
             (case np_index colors upper_idx of
                Inl e \<Rightarrow> Inl e
              | Inr upper \<Rightarrow>
                  Inr (map trunc
                         (map2 (\<lambda>a b. fl (fl (fl (1 - weight) * real_of_int a) + fl (weight * real_of_int b)))
                            lower upper)
                       @ [255])))"

definition palette :: "int list list \<Rightarrow> bool" where
  "palette colors \<longleftrightarrow>
     colors \<noteq> [] \<and> length colors \<le> 2 ^ 53 \<and>
     (\<forall>c \<in> set colors. length c = length (hd colors) \<and> (\<forall>a \<in> set c. \<bar>a\<bar> \<le> 2 ^ 53))"

section \<open>Helper lemmas\<close>

subsection \<open>Tags, ways and retries\<close>

lemma has_key_iff: "has_key k d \<longleftrightarrow> k \<in> fst ` set d"
  by (simp add: has_key_def map_of_eq_None_iff)

lemma base_heights_yes: "map_of base_heights ''yes'' = Some 8"
  by (simp add: base_heights_def)

lemma decimal_literal_12_5: "decimal_literal ''12.5'' = Some (25 / 2)"
  by (simp add: decimal_literal_def is_digit_def digits_value_def)

lemma decimal_literal_4: "decimal_literal ''4'' = Some 4"
  by (simp add: decimal_literal_def is_digit_def digits_value_def)

lemma way_coords_geometry:
  "way_coords e \<noteq> [] \<Longrightarrow> (case el_geometry e of None \<Rightarrow> False | Some g \<Rightarrow> g \<noteq> [])"
  by (cases "el_geometry e") (auto simp: way_coords_def)

lemma closed_way_coords: "way_coords closed_way = [(0, 0), (0, 1), (0, 0)]"
  by (simp add: way_coords_def closed_way_def)

lemma closed_way_tags:
  "element_tags closed_way = [(''building'', ''yes''), (''highway'', ''service'')]"
  by (simp add: element_tags_def closed_way_def)

lemma closed_way_nodes: "el_type closed_way = Some ''way'' \<and> el_nodes closed_way = None"
  by (simp add: closed_way_def)

lemma node_with_sel:
  "element_tags (node_with tgs) = tgs" "el_lon (node_with tgs) = Some 0" "el_lat (node_with tgs) = Some 0"
  by (simp_all add: node_with_def element_tags_def)

lemma matches_tags_iff: "matches_tags wanted ft \<longleftrightarrow> requested_pairs_match wanted ft"
  by (auto simp: matches_tags_def requested_pairs_match_def list_all_iff has_key_def)















subsection \<open>Rounding\<close>

lemma ieee_mono: "ieee_rounding fl \<Longrightarrow> x \<le> y \<Longrightarrow> fl x \<le> fl y"
  by (simp add: ieee_rounding_def)

lemma ieee_nat:
  assumes "ieee_rounding fl" "k \<le> 2 ^ 53" shows "fl (real k) = real k"
proof -
  from assms(2) have "int k \<le> int (2 ^ 53)" by (simp only: of_nat_le_iff)
  then have "\<bar>int k\<bar> \<le> 2 ^ 53" by simp
  with assms(1) have "fl (of_int (int k)) = of_int (int k)"
    unfolding ieee_rounding_def by blast
  then show ?thesis by simp
qed

lemma ieee_zero: "ieee_rounding fl \<Longrightarrow> fl 0 = 0"
  using ieee_nat [of fl 0] by simp

lemma ieee_one: "ieee_rounding fl \<Longrightarrow> fl 1 = 1"
  using ieee_nat [of fl 1] by simp

lemma ieee_error:
  assumes "ieee_rounding fl" "1 \<le> x" "x \<le> 2 ^ 1023"
  shows "\<bar>fl x - x\<bar> \<le> x / 2 ^ 53"
proof -
  from assms(2,3) have "1 \<le> \<bar>x\<bar> \<and> \<bar>x\<bar> \<le> 2 ^ 1023" by simp
  with assms(1) have "\<bar>fl x - x\<bar> \<le> \<bar>x\<bar> / 2 ^ 53"
    unfolding ieee_rounding_def by blast
  with assms(2) show ?thesis by simp
qed

lemma pow_51_1023: "(2::real) ^ 52 \<le> 2 ^ 1023"
  by (rule power_increasing) simp_all

text \<open>The rounded product \<open>i * fl q\<close> is within \<open>3 S / 2^53\<close> of \<open>i * q\<close>.\<close>

lemma rounded_product:
  fixes q S :: real
  assumes fl: "ieee_rounding fl" and q: "1 \<le> q" and i: "1 \<le> i"
    and S: "real i * q \<le> S" "S \<le> 2 ^ 51"
  shows "\<bar>fl (real i * fl q) - real i * q\<bar> \<le> 3 * S / 2 ^ 53"
proof -
  define u :: real where "u = 1 / 2 ^ 53"
  have u: "0 < u" "u \<le> 1" by (simp_all add: u_def)
  define t where "t = real i * q"
  have i1: "1 \<le> real i" using i by simp
  have t1: "1 \<le> t" unfolding t_def using mult_mono [of 1 "real i" 1 q] i1 q by simp
  have tq: "q \<le> t" unfolding t_def using mult_mono [of 1 "real i" q q] i1 q by simp
  have tS: "t \<le> S" using S by (simp add: t_def)
  have "(2::real) ^ 51 \<le> 2 ^ 1023" by (rule power_increasing) simp_all
  then have q_hi: "q \<le> 2 ^ 1023" using tq tS S(2) by linarith
  have e1: "\<bar>fl q - q\<bar> \<le> q * u"
    using ieee_error [OF fl q q_hi] by (simp add: u_def)
  have s1: "1 \<le> fl q" using ieee_mono [OF fl q] ieee_one [OF fl] by simp
  define x where "x = real i * fl q"
  have x1: "1 \<le> x" unfolding x_def using mult_mono [of 1 "real i" 1 "fl q"] i1 s1 by simp
  have "\<bar>x - t\<bar> = real i * \<bar>fl q - q\<bar>"
    unfolding x_def t_def by (simp add: abs_mult right_diff_distrib [symmetric])
  also have "\<dots> \<le> real i * (q * u)"
    using e1 i1 by (simp add: mult_left_mono)
  finally have e2: "\<bar>x - t\<bar> \<le> t * u" by (simp add: t_def mult.assoc)
  have tu: "t * u \<le> t" using mult_left_mono [of u 1 t] u t1 by simp
  have x_hi: "x \<le> 2 * t" using e2 tu by linarith
  have "2 * t \<le> 2 ^ 52" using tS S(2) by simp
  then have x_hi': "x \<le> 2 ^ 1023" using x_hi pow_51_1023 by linarith
  have e3: "\<bar>fl x - x\<bar> \<le> x * u"
    using ieee_error [OF fl x1 x_hi'] by (simp add: u_def)
  have "x * u \<le> 2 * t * u" using x_hi u by (simp add: mult_right_mono)
  with e3 have e4: "\<bar>fl x - x\<bar> \<le> 2 * t * u" by linarith
  have "\<bar>fl x - t\<bar> \<le> 3 * t * u" using e2 e4 by linarith
  also have "\<dots> \<le> 3 * S * u" using tS u by (simp add: mult_right_mono)
  finally show ?thesis by (simp add: x_def t_def u_def)
qed


lemma linspace_sample_last: "i = num - 1 \<Longrightarrow> linspace_sample fl stop num i = real stop"
  by (simp add: linspace_sample_def Let_def)

lemma linspace_step_ge1:
  assumes fl: "ieee_rounding fl" and num: "2 \<le> num" "num \<le> stop"
  shows "1 \<le> fl (real stop / real (num - 1))"
proof -
  have "real (num - 1) \<le> real stop" using num by simp
  moreover have "0 < real (num - 1)" using num by simp
  ultimately have "1 \<le> real stop / real (num - 1)" by (simp add: pos_le_divide_eq)
  from ieee_mono [OF fl this] ieee_one [OF fl] show ?thesis by simp
qed

lemma linspace_sample_inner:
  assumes fl: "ieee_rounding fl" and num: "2 \<le> num" "num \<le> stop" and i: "i < num - 1"
  shows "linspace_sample fl stop num i = fl (real i * fl (real stop / real (num - 1)))"
  using linspace_step_ge1 [OF fl num] i by (simp add: linspace_sample_def Let_def)

text \<open>
  Every sample lies at most \<open>3 stop / 2^53\<close> from the ideal position \<open>i * stop / (num - 1)\<close>,
  which is too little to cross the next integer.
\<close>

lemma linspace_index_near:
  assumes fl: "ieee_rounding fl" and num: "2 \<le> num" "num \<le> stop"
    and small: "stop * num \<le> 2 ^ 51" and i: "i < num"
  shows "nat \<lfloor>linspace_sample fl stop num i\<rfloor> \<le> (i * stop) div (num - 1)
       \<and> (i * stop) div (num - 1) \<le> Suc (nat \<lfloor>linspace_sample fl stop num i\<rfloor>)"
proof -
  define dv where "dv = num - 1"
  have dv: "1 \<le> dv" "dv < num" "dv \<le> stop" using num by (simp_all add: dv_def)
  consider "i = dv" | "i = 0" "i < dv" | "1 \<le> i" "i < dv" using i dv_def by linarith
  then show ?thesis
  proof cases
    case 1
    then have "linspace_sample fl stop num i = real stop"
      using linspace_sample_last [of i num fl stop] by (simp add: dv_def)
    moreover have "(i * stop) div dv = stop" using 1 dv by simp
    ultimately show ?thesis by (simp add: dv_def)
  next
    case 2
    then have "linspace_sample fl stop num i = fl 0"
      using linspace_sample_inner [OF fl num, of i] by (simp add: dv_def)
    then show ?thesis using 2 ieee_zero [OF fl] by simp
  next
    case 3
    define q where "q = real stop / real dv"
    define y where "y = fl (real i * fl q)"
    define k where "k = (i * stop) div dv"
    have y: "linspace_sample fl stop num i = y"
      using linspace_sample_inner [OF fl num, of i] 3 by (simp add: dv_def y_def q_def)
    have dvpos: "0 < real dv" using dv by simp
    have q1: "1 \<le> q" unfolding q_def using dv dvpos by (simp add: pos_le_divide_eq)
    have "real i * real stop \<le> real dv * real stop"
      using 3 by (simp add: mult_right_mono)
    then have tS: "real i * q \<le> real stop"
      unfolding q_def using dvpos by (simp add: pos_divide_le_eq mult.commute)
    have "stop * 1 \<le> stop * num" using num by (intro mult_le_mono) simp_all
    then have "stop \<le> stop * num" by simp
    from this small have "stop \<le> 2 ^ 51" by (rule order_trans)
    then have "real stop \<le> real (2 ^ 51)" by (simp only: of_nat_le_iff)
    then have S51: "real stop \<le> 2 ^ 51" by simp
    have near: "\<bar>y - real i * q\<bar> \<le> 3 * real stop / 2 ^ 53"
      unfolding y_def using rounded_product [OF fl q1 3(1) tS S51] .
    have "stop * dv \<le> stop * num" using dv by (intro mult_le_mono) simp_all
    from this small have "stop * dv \<le> 2 ^ 51" by (rule order_trans)
    then have "real (stop * dv) \<le> real (2 ^ 51)" by (simp only: of_nat_le_iff)
    then have sd: "real stop * real dv \<le> 2 ^ 51" by simp
    have "3 * real stop * real dv < 2 ^ 53" using sd by simp
    then have gap: "3 * real stop / 2 ^ 53 < 1 / real dv"
      using dvpos by (simp add: field_simps)
    have "1 / real dv \<le> 1" using dv by simp
    with gap have lt1: "3 * real stop / 2 ^ 53 < 1" by linarith
    have t_eq: "real i * q = real (i * stop) / real dv" by (simp add: q_def)
    have "k * dv \<le> i * stop" by (simp add: k_def)
    then have "real (k * dv) \<le> real (i * stop)" by (simp only: of_nat_le_iff)
    then have lo: "real k \<le> real i * q"
      unfolding t_eq using dvpos by (simp add: pos_le_divide_eq)
    have "i * stop < dv + k * dv"
      unfolding k_def using dv by (intro dividend_less_div_times) simp
    then have "i * stop + 1 \<le> (k + 1) * dv" by simp
    then have "real (i * stop + 1) \<le> real ((k + 1) * dv)" by (simp only: of_nat_le_iff)
    then have "real (i * stop) + 1 \<le> (real k + 1) * real dv" by (simp add: algebra_simps)
    then have hi: "real i * q + 1 / real dv \<le> real k + 1"
      unfolding t_eq using dvpos by (simp add: field_simps)
    have y_lt: "y < real k + 1" using near gap hi by linarith
    have y_gt: "real k - 1 < y" using near lt1 lo by linarith
    have "1 \<le> real i * fl q"
      using mult_mono [of 1 "real i" 1 "fl q"] 3(1) ieee_mono [OF fl q1] ieee_one [OF fl] by simp
    then have y1: "1 \<le> y" unfolding y_def using ieee_mono [OF fl] ieee_one [OF fl] by metis
    have "y < of_int (int k + 1)" using y_lt by simp
    then have f_hi: "\<lfloor>y\<rfloor> < int k + 1" by (simp only: floor_less_iff)
    have "of_int (int k - 1) \<le> y" using y_gt by simp
    then have f_lo: "int k - 1 \<le> \<lfloor>y\<rfloor>" by (simp only: le_floor_iff)
    have f0: "0 \<le> \<lfloor>y\<rfloor>" using y1 by simp
    have "nat \<lfloor>y\<rfloor> \<le> k" using f_hi f0 by linarith
    moreover have "k \<le> Suc (nat \<lfloor>y\<rfloor>)" using f_lo f0 by linarith
    ultimately show ?thesis by (simp add: y k_def dv_def)
  qed
qed

lemma linspace_length: "length (linspace_int fl stop num) = num"
  by (simp add: linspace_int_def)

lemma linspace_nth:
  "2 \<le> num \<Longrightarrow> i < num \<Longrightarrow> linspace_int fl stop num ! i = nat \<lfloor>linspace_sample fl stop num i\<rfloor>"
  by (simp add: linspace_int_def)

lemma linspace_index_le_stop:
  assumes fl: "ieee_rounding fl" and num: "2 \<le> num" "num \<le> stop"
    and small: "stop * num \<le> 2 ^ 51" and i: "i < num"
  shows "nat \<lfloor>linspace_sample fl stop num i\<rfloor> \<le> stop"
proof -
  have "i * stop \<le> (num - 1) * stop" using i by (intro mult_le_mono) simp_all
  then have "(i * stop) div (num - 1) \<le> ((num - 1) * stop) div (num - 1)" by (rule div_le_mono)
  also have "\<dots> = stop" using num by simp
  finally show ?thesis using linspace_index_near [OF fl num small i] by linarith
qed

lemma linspace_in_range:
  assumes fl: "ieee_rounding fl" and num: "num \<le> stop" and small: "stop * num \<le> 2 ^ 51"
  shows "\<forall>j \<in> set (linspace_int fl stop num). j \<le> stop"
proof (cases "2 \<le> num")
  case True
  then show ?thesis
    using linspace_index_le_stop [OF fl True num small] by (auto simp: linspace_int_def)
next
  case False
  then show ?thesis by (auto simp: linspace_int_def)
qed

lemma linspace_sorted:
  assumes fl: "ieee_rounding fl" and num: "num \<le> stop" and small: "stop * num \<le> 2 ^ 51"
  shows "sorted (linspace_int fl stop num)"
proof (cases "2 \<le> num")
  case False
  then show ?thesis by (auto simp: linspace_int_def)
next
  case True
  have "linspace_int fl stop num ! i \<le> linspace_int fl stop num ! j" if ij: "i \<le> j" "j < num" for i j
  proof (cases "j = num - 1")
    case True
    with \<open>2 \<le> num\<close> ij have "linspace_int fl stop num ! j = stop"
      by (simp add: linspace_nth linspace_sample_last)
    moreover have "linspace_int fl stop num ! i \<le> stop"
      using linspace_index_le_stop [OF fl \<open>2 \<le> num\<close> num small, of i] ij \<open>2 \<le> num\<close>
      by (simp add: linspace_nth)
    ultimately show ?thesis by simp
  next
    case False
    with ij have j: "j < num - 1" and i: "i < num - 1" by simp_all
    have "0 \<le> fl (real stop / real (num - 1))"
      using linspace_step_ge1 [OF fl \<open>2 \<le> num\<close> num] by simp
    then have "real i * fl (real stop / real (num - 1)) \<le> real j * fl (real stop / real (num - 1))"
      using ij by (intro mult_right_mono) simp_all
    then have "linspace_sample fl stop num i \<le> linspace_sample fl stop num j"
      using linspace_sample_inner [OF fl \<open>2 \<le> num\<close> num] i j ieee_mono [OF fl] by simp
    then have "nat \<lfloor>linspace_sample fl stop num i\<rfloor> \<le> nat \<lfloor>linspace_sample fl stop num j\<rfloor>"
      by (intro nat_mono floor_mono)
    then show ?thesis using ij \<open>2 \<le> num\<close> by (simp add: linspace_nth)
  qed
  then show ?thesis by (simp add: sorted_iff_nth_mono linspace_length)
qed

lemma linspace_ends:
  assumes fl: "ieee_rounding fl" and num: "2 \<le> num" "num \<le> stop"
  shows "hd (linspace_int fl stop num) = 0" "last (linspace_int fl stop num) = stop"
proof -
  have ne: "linspace_int fl stop num \<noteq> []" using num linspace_length [of fl stop num] by auto
  have "linspace_int fl stop num ! 0 = nat \<lfloor>fl 0\<rfloor>"
    using num linspace_sample_inner [OF fl num, of 0] by (simp add: linspace_nth)
  then show "hd (linspace_int fl stop num) = 0"
    using ne ieee_zero [OF fl] by (simp add: hd_conv_nth)
  have "linspace_int fl stop num ! (num - 1) = stop"
    using num by (simp add: linspace_nth linspace_sample_last)
  then show "last (linspace_int fl stop num) = stop"
    using ne by (simp add: last_conv_nth linspace_length)
qed

subsection \<open>The elevation service\<close>

lemma ieee_rounding_exact: "ieee_rounding (\<lambda>x. x)"
  by (simp add: ieee_rounding_def)

lemma scan_cache_parts:
  "\<exists>idxs. scan_cache en cache i cs =
     (map (\<lambda>c. case (if en then map_of cache (cache_key c) else None) of Some v \<Rightarrow> v | None \<Rightarrow> None) cs,
      filter (\<lambda>c. (if en then map_of cache (cache_key c) else None) = None) cs,
      idxs)"
proof (induction cs arbitrary: i)
  case Nil
  show ?case by simp
next
  case (Cons c cs)
  from Cons [of "Suc i"] obtain idxs where
    "scan_cache en cache (Suc i) cs =
     (map (\<lambda>c. case (if en then map_of cache (cache_key c) else None) of Some v \<Rightarrow> v | None \<Rightarrow> None) cs,
      filter (\<lambda>c. (if en then map_of cache (cache_key c) else None) = None) cs,
      idxs)" by blast
  then show ?case
    by (cases "if en then map_of cache (cache_key c) else None") simp_all
qed

lemma scan_cache_slots:
  "fst (scan_cache en cache i cs) =
     map (\<lambda>c. case (if en then map_of cache (cache_key c) else None) of Some v \<Rightarrow> v | None \<Rightarrow> None) cs"
  using scan_cache_parts [of en cache i cs] by auto

lemma scan_cache_misses:
  "fst (snd (scan_cache en cache i cs)) =
     filter (\<lambda>c. (if en then map_of cache (cache_key c) else None) = None) cs"
  using scan_cache_parts [of en cache i cs] by auto

lemma store_results_length:
  "length (fst (snd (store_results en fetch idxs i rs es cache))) = length es"
  by (induction rs arbitrary: i es cache) (simp_all add: Let_def split: api_result.splits)

lemma fetch_elevations_length:
  "length (elevations (fetch_elevations cfg provider cache cs)) = length cs"
proof -
  obtain es fetch idxs where sc: "scan_cache (ENABLE_CACHE cfg) cache 0 cs = (es, fetch, idxs)"
    by (cases "scan_cache (ENABLE_CACHE cfg) cache 0 cs") auto
  have es: "length es = length cs"
    using scan_cache_slots [of "ENABLE_CACHE cfg" cache 0 cs] sc by (metis fst_conv length_map)
  show ?thesis
  proof (cases "provider (map (\<lambda>(lon, lat). \<lparr> latitude = lat, longitude = lon \<rparr>) fetch)")
    case Failed
    then show ?thesis by (simp add: fetch_elevations_def sc es Let_def)
  next
    case (Results rs)
    obtain err es1 cache1 where st:
      "store_results (ENABLE_CACHE cfg) fetch idxs 0 rs es cache = (err, es1, cache1)"
      by (cases "store_results (ENABLE_CACHE cfg) fetch idxs 0 rs es cache") auto
    have "length es1 = length es"
      using store_results_length [of "ENABLE_CACHE cfg" fetch idxs 0 rs es cache] st by simp
    then show ?thesis
      by (simp add: fetch_elevations_def sc es Let_def Results st split: option.splits)
  qed
qed

lemma to_location_eq: "(\<lambda>(lon, lat). \<lparr> latitude = lat, longitude = lon \<rparr>) = to_location"
  by (auto simp: to_location_def fun_eq_iff)

lemma scan_cache_fetch:
  "fst (snd (scan_cache (ENABLE_CACHE cfg) cache i cs)) = misses cfg cache cs"
  using scan_cache_misses [of "ENABLE_CACHE cfg" cache i cs] by (simp add: misses_def cached_def)

text \<open>
  The writes of the loop over the results: the \<open>k\<close>-th result that counts goes to the slot
  whose index is the \<open>k\<close>-th of \<open>coords_indices\<close>.
\<close>

lemma store_results_slots:
  "fst (snd (store_results en fetch idxs k rs es cache)) =
     foldl (\<lambda>acc (ix, v). acc[ix := v]) es
       (zip (drop k idxs)
          (map (\<lambda>r. case r of NotAnObject \<Rightarrow> None | Object m \<Rightarrow> (case m of None \<Rightarrow> Some 0 | Some v \<Rightarrow> v))
             (takeWhile is_object rs)))"
proof (induction rs arbitrary: k es cache)
  case Nil
  show ?case by simp
next
  case (Cons r rs)
  show ?case
  proof (cases r)
    case NotAnObject
    then show ?thesis by (simp add: is_object_def)
  next
    case (Object m)
    show ?thesis
    proof (cases "length idxs \<le> k")
      case True
      with Object show ?thesis by (simp add: is_object_def)
    next
      case False
      then have d: "drop k idxs = idxs ! k # drop (Suc k) idxs"
        by (simp add: Cons_nth_drop_Suc)
      from False Object show ?thesis
        by (simp add: is_object_def d Cons.IH Let_def)
    qed
  qed
qed

text \<open>
  The slots and indices of the first loop, once values \<open>vs\<close> are written at the indices
  and \<open>None\<close> is read as 0, are what \<open>fill\<close> says; \<open>pre\<close> stands for the slots before
  position \<open>i\<close>.
\<close>

lemma scan_cache_fill:
  assumes "length pre = i"
  shows "map (\<lambda>e. case e of None \<Rightarrow> 0 | Some x \<Rightarrow> x)
           (foldl (\<lambda>acc (ix, v). acc[ix := v]) (pre @ fst (scan_cache (ENABLE_CACHE cfg) cache i cs))
              (zip (snd (snd (scan_cache (ENABLE_CACHE cfg) cache i cs))) vs)) =
         map (\<lambda>e. case e of None \<Rightarrow> 0 | Some x \<Rightarrow> x) pre @
         fill cfg cache cs (map (\<lambda>e. case e of None \<Rightarrow> 0 | Some x \<Rightarrow> x) vs)"
  using assms
proof (induction cs arbitrary: i pre vs)
  case Nil
  show ?case by simp
next
  case (Cons c cs)
  obtain es fetch idxs where sc: "scan_cache (ENABLE_CACHE cfg) cache (Suc i) cs = (es, fetch, idxs)"
    by (cases "scan_cache (ENABLE_CACHE cfg) cache (Suc i) cs") auto
  have ih: "map (\<lambda>e. case e of None \<Rightarrow> 0 | Some x \<Rightarrow> x)
           (foldl (\<lambda>acc (ix, v). acc[ix := v]) ((pre @ [x]) @ es) (zip idxs ws)) =
         map (\<lambda>e. case e of None \<Rightarrow> 0 | Some x \<Rightarrow> x) (pre @ [x]) @
         fill cfg cache cs (map (\<lambda>e. case e of None \<Rightarrow> 0 | Some x \<Rightarrow> x) ws)" for x ws
    using Cons.IH [of "pre @ [x]" "Suc i" ws] Cons.prems sc by simp
  show ?case
  proof (cases "cached cfg cache c")
    case (Some v)
    then have "scan_cache (ENABLE_CACHE cfg) cache i (c # cs) = (v # es, fetch, idxs)"
      by (simp add: sc cached_def)
    with Some ih [of v vs] show ?thesis by simp
  next
    case None
    then have s: "scan_cache (ENABLE_CACHE cfg) cache i (c # cs) = (None # es, c # fetch, i # idxs)"
      by (simp add: sc cached_def)
    show ?thesis
    proof (cases vs)
      case Nil
      with None s ih [of None "[]"] show ?thesis by simp
    next
      case (Cons w ws)
      have "(pre @ None # es)[i := w] = pre @ w # es"
        using Cons.prems by (simp add: list_update_append)
      with None s Cons ih [of w ws] show ?thesis by simp
    qed
  qed
qed

lemma fill_no_miss: "misses cfg cache cs = [] \<Longrightarrow> fill cfg cache cs vs = fill cfg cache cs []"
  by (induction cs) (auto simp add: misses_def split: if_splits)

lemma fill_failed: "fill cfg cache cs [] = map (cached_or_zero cfg cache) cs"
  by (induction cs) (auto simp add: cached_or_zero_def split: option.splits)

lemma slot_elevations:
  "map (\<lambda>e. case e of None \<Rightarrow> 0 | Some x \<Rightarrow> x)
     (map (\<lambda>r. case r of NotAnObject \<Rightarrow> None | Object m \<Rightarrow> (case m of None \<Rightarrow> Some 0 | Some v \<Rightarrow> v))
        (takeWhile is_object rs)) =
   map result_elevation (takeWhile is_object rs)"
  by (induction rs)
     (auto simp add: is_object_def result_elevation_def split: api_result.splits option.splits)

lemma zero_for_none:
  "map (\<lambda>e. case e of None \<Rightarrow> 0 | Some x \<Rightarrow> x)
     (map (\<lambda>e. case e of None \<Rightarrow> Some 0 | Some x \<Rightarrow> Some x) es) =
   map (\<lambda>e. case e of None \<Rightarrow> (0::real) | Some x \<Rightarrow> x) es"
  by (induction es) (auto split: option.splits)

lemma fetch_elevations_content:
  "elevations (fetch_elevations cfg provider cache cs) =
     fill cfg cache cs (reply_elevations (provider (map to_location (misses cfg cache cs))))"
proof -
  obtain es fetch idxs where sc: "scan_cache (ENABLE_CACHE cfg) cache 0 cs = (es, fetch, idxs)"
    by (cases "scan_cache (ENABLE_CACHE cfg) cache 0 cs") auto
  have fetch: "fetch = misses cfg cache cs"
    using scan_cache_fetch [of cfg cache 0 cs] sc by simp
  have written: "map (\<lambda>e. case e of None \<Rightarrow> 0 | Some x \<Rightarrow> x)
                   (foldl (\<lambda>acc (ix, v). acc[ix := v]) es (zip idxs vs)) =
                 fill cfg cache cs (map (\<lambda>e. case e of None \<Rightarrow> 0 | Some x \<Rightarrow> x) vs)" for vs
    using scan_cache_fill [of "[]" 0 cfg cache cs vs] sc by simp
  from written [of "[]"] have unwritten:
    "map (\<lambda>e. case e of None \<Rightarrow> 0 | Some x \<Rightarrow> x) es = fill cfg cache cs []"
    by simp
  show ?thesis
  proof (cases "fetch = []")
    case True
    with fetch have "misses cfg cache cs = []" by simp
    then have "fill cfg cache cs (reply_elevations (provider (map to_location (misses cfg cache cs)))) =
               fill cfg cache cs []"
      by (rule fill_no_miss)
    with True show ?thesis
      by (simp add: fetch_elevations_def sc unwritten)
  next
    case False
    show ?thesis
    proof (cases "provider (map to_location (misses cfg cache cs))")
      case Failed
      with False show ?thesis
        by (simp add: fetch_elevations_def sc Let_def to_location_eq fetch [symmetric]
              zero_for_none unwritten reply_elevations_def del: map_map)
    next
      case (Results rs)
      obtain err es1 cache1 where st:
        "store_results (ENABLE_CACHE cfg) fetch idxs 0 rs es cache = (err, es1, cache1)"
        by (cases "store_results (ENABLE_CACHE cfg) fetch idxs 0 rs es cache") auto
      have "map (\<lambda>e. case e of None \<Rightarrow> 0 | Some x \<Rightarrow> x) es1 =
            fill cfg cache cs (map result_elevation (takeWhile is_object rs))"
        using store_results_slots [of "ENABLE_CACHE cfg" fetch idxs 0 rs es cache] st
        by (simp add: written slot_elevations del: map_map)
      with False Results st show ?thesis
        by (simp add: fetch_elevations_def sc Let_def to_location_eq fetch [symmetric]
              zero_for_none reply_elevations_def del: map_map split: option.splits)
    qed
  qed
qed

lemma fetch_elevations_request:
  "requested (fetch_elevations cfg provider cache cs) =
     (if misses cfg cache cs = [] then None else Some (map to_location (misses cfg cache cs)))"
proof -
  obtain es fetch idxs where sc: "scan_cache (ENABLE_CACHE cfg) cache 0 cs = (es, fetch, idxs)"
    by (cases "scan_cache (ENABLE_CACHE cfg) cache 0 cs") auto
  have "fetch = misses cfg cache cs"
    using scan_cache_fetch [of cfg cache 0 cs] sc by simp
  then show ?thesis
    by (simp add: fetch_elevations_def sc Let_def to_location_eq split: prod.splits)
qed

lemma misses_empty_cache: "misses cfg [] cs = cs"
  by (simp add: misses_def cached_def)

lemma fetch_elevations_requested:
  assumes "cache = []" "cs \<noteq> []"
  shows "requested (fetch_elevations cfg provider cache cs) = Some (map to_location cs)"
  using assms by (simp add: fetch_elevations_request misses_empty_cache)

lemma fetch_elevations_failed:
  assumes "provider (map to_location (misses cfg cache cs)) = Failed"
  shows "elevations (fetch_elevations cfg provider cache cs) = map (cached_or_zero cfg cache) cs"
    and "cache_after (fetch_elevations cfg provider cache cs) = cache"
proof -
  obtain es fetch idxs where sc: "scan_cache (ENABLE_CACHE cfg) cache 0 cs = (es, fetch, idxs)"
    by (cases "scan_cache (ENABLE_CACHE cfg) cache 0 cs") auto
  have fetch: "fetch = misses cfg cache cs"
    using scan_cache_fetch [of cfg cache 0 cs] sc by simp
  show "elevations (fetch_elevations cfg provider cache cs) = map (cached_or_zero cfg cache) cs"
    using assms by (simp add: fetch_elevations_content reply_elevations_def fill_failed)
  show "cache_after (fetch_elevations cfg provider cache cs) = cache"
    using assms by (simp add: fetch_elevations_def sc Let_def to_location_eq fetch [symmetric])
qed

lemma digits_of_digit: "n < 10 \<Longrightarrow> digits_of n = [char_of (48 + n)]"
  by (subst digits_of.simps) simp

lemma round_half_even_int: "round_half_even (of_int k) = k"
  by (simp add: round_half_even_def)

lemma keys_differ:
  "cache_key (0, 0) \<noteq> cache_key (1, 0)" "cache_key (2, 0) \<noteq> cache_key (1, 0)"
proof -
  have r: "round_half_even 0 = 0" "round_half_even 100000 = 100000" "round_half_even 200000 = 200000"
    using round_half_even_int [of 0] round_half_even_int [of 100000] round_half_even_int [of 200000]
    by simp_all
  show "cache_key (0, 0) \<noteq> cache_key (1, 0)"
    by (simp add: cache_key_def format_5f_def r digits_of_digit Let_def char_of_eq_iff)
  show "cache_key (2, 0) \<noteq> cache_key (1, 0)"
    by (simp add: cache_key_def format_5f_def r digits_of_digit Let_def char_of_eq_iff)
qed

lemma near_origin_cached:
  "cached default_settings one_cached (0, 0) = None"
  "cached default_settings one_cached (1, 0) = Some (Some 5)"
  "cached default_settings one_cached (2, 0) = None"
  by (simp_all add: cached_def one_cached_def default_settings_def keys_differ)

lemma select_in_range:
  "\<forall>j \<in> set idxs. j < length xs \<Longrightarrow> select xs idxs = Inr (map (\<lambda>i. xs ! i) idxs)"
  by (induction idxs) simp_all

lemma fetch_elevations_nil:
  "fetch_elevations cfg provider cache [] = \<lparr> elevations = [], cache_after = cache, requested = None \<rparr>"
  by (simp add: fetch_elevations_def)

lemma get_elevation_data_returns:
  assumes fl: "ieee_rounding fl" and small: "length cs * MAX_ELEVATION_POINTS cfg \<le> 2 ^ 51"
  shows "get_elevation_data fl cfg provider cache cs =
           Inr (fetch_elevations cfg provider cache (kept_coords fl cfg cs))"
proof (cases "MAX_ELEVATION_POINTS cfg < length cs")
  case False
  then show ?thesis
    by (simp add: get_elevation_data_def kept_coords_def fetch_elevations_nil)
next
  case True
  then have num: "MAX_ELEVATION_POINTS cfg \<le> length cs - 1" by simp
  have "(length cs - 1) * MAX_ELEVATION_POINTS cfg \<le> length cs * MAX_ELEVATION_POINTS cfg"
    by (intro mult_le_mono) simp_all
  from this small have "(length cs - 1) * MAX_ELEVATION_POINTS cfg \<le> 2 ^ 51" by (rule order_trans)
  from linspace_in_range [OF fl num this] True
  have "\<forall>j \<in> set (linspace_int fl (length cs - 1) (MAX_ELEVATION_POINTS cfg)). j < length cs"
    by fastforce
  from select_in_range [OF this] True show ?thesis
    by (auto simp add: get_elevation_data_def kept_coords_def)
qed

lemma length_kept_coords:
  "length (kept_coords fl cfg cs) = min (length cs) (MAX_ELEVATION_POINTS cfg)"
  by (simp add: kept_coords_def linspace_length)


lemma track_length: "length (track n) = n"
  by (simp add: track_def)

subsection \<open>Colour interpolation\<close>

lemma ieee_int:
  "ieee_rounding fl \<Longrightarrow> \<bar>a\<bar> \<le> 2 ^ 53 \<Longrightarrow> fl (real_of_int a) = real_of_int a"
  unfolding ieee_rounding_def by blast

lemma trunc_of_int: "trunc (real_of_int a) = a"
  by (simp add: trunc_def)

lemma get_color_for_value_position:
  "get_color_for_value fl v min_v max_v colors =
     color_at_position fl
       (max 0 (min 1 (if fl (max_v - min_v) = 0 then 1 / 2
                      else fl (fl (v - min_v) / fl (max_v - min_v)))))
       colors"
  by (simp add: get_color_for_value_def color_at_position_def Let_def)

lemma blend_weight_zero:
  assumes fl: "ieee_rounding fl" and len: "length xs = length ys"
    and bound: "\<forall>a \<in> set xs. \<bar>a\<bar> \<le> 2 ^ 53"
  shows "map trunc (map2 (\<lambda>a b. fl (fl (fl (1 - 0) * real_of_int a) + fl (0 * real_of_int b))) xs ys) = xs"
  using len bound
proof (induction xs ys rule: list_induct2)
  case Nil
  show ?case by simp
next
  case (Cons a xs b ys)
  have z: "fl 0 = 0" and o: "fl 1 = 1"
    using ieee_int [OF fl, of 0] ieee_int [OF fl, of 1] by simp_all
  from Cons.prems have "fl (real_of_int a) = real_of_int a" by (intro ieee_int [OF fl]) simp
  with Cons show ?case by (simp add: z o trunc_of_int)
qed

lemma palette_row:
  assumes "palette colors" "i < length colors"
  shows "length (colors ! i) = length (hd colors)" "\<forall>a \<in> set (colors ! i). \<bar>a\<bar> \<le> 2 ^ 53"
proof -
  from assms(2) have mem: "colors ! i \<in> set colors" by (rule nth_mem)
  from assms(1) have rows:
    "\<forall>c \<in> set colors. length c = length (hd colors) \<and> (\<forall>a \<in> set c. \<bar>a\<bar> \<le> 2 ^ 53)"
    unfolding palette_def by blast
  from rows mem show "length (colors ! i) = length (hd colors)" by blast
  from rows mem show "\<forall>a \<in> set (colors ! i). \<bar>a\<bar> \<le> 2 ^ 53" by blast
qed

lemma color_at_first:
  assumes fl: "ieee_rounding fl" and p: "palette colors"
  shows "color_at_position fl 0 colors = Inr (hd colors @ [255])"
proof -
  have z: "fl 0 = 0" using ieee_int [OF fl, of 0] by simp
  have ne: "colors \<noteq> []" using p by (simp add: palette_def)
  then have n: "0 < length colors" by simp
  define up where "up = min (1::int) (int (length colors) - 1)"
  have up: "0 \<le> up" "up < int (length colors)" using n by (simp_all add: up_def)
  have lo: "np_index colors 0 = Inr (hd colors)"
    using ne by (simp add: np_index_def hd_conv_nth)
  have hi: "np_index colors up = Inr (colors ! nat up)"
    using up by (simp add: np_index_def)
  have "nat up < length colors" using up by simp
  from palette_row [OF p this] have len: "length (hd colors) = length (colors ! nat up)" by simp
  have b: "\<forall>a \<in> set (hd colors). \<bar>a\<bar> \<le> 2 ^ 53"
    using palette_row(2) [OF p n] ne by (simp add: hd_conv_nth)
  show ?thesis
    using blend_weight_zero [OF fl len b]
    by (simp add: color_at_position_def Let_def z trunc_def lo hi up_def [symmetric])
qed

lemma color_at_last:
  assumes fl: "ieee_rounding fl" and p: "palette colors"
  shows "color_at_position fl 1 colors = Inr (last colors @ [255])"
proof -
  have z: "fl 0 = 0" using ieee_int [OF fl, of 0] by simp
  have ne: "colors \<noteq> []" using p by (simp add: palette_def)
  then have n: "0 < length colors" by simp
  define k where "k = int (length colors) - 1"
  have k: "0 \<le> k" "k < int (length colors)" "nat k = length colors - 1" using n by (simp_all add: k_def)
  have "length colors \<le> 2 ^ 53" using p by (simp add: palette_def)
  then have "int (length colors) \<le> int (2 ^ 53)" by (simp only: of_nat_le_iff)
  then have "\<bar>k\<bar> \<le> 2 ^ 53" using k by simp
  then have ex: "fl (real_of_int k) = real_of_int k" by (rule ieee_int [OF fl])
  have row: "np_index colors k = Inr (last colors)"
    using k ne by (simp add: np_index_def last_conv_nth)
  have "nat k < length colors" using k n by simp
  from palette_row(2) [OF p this] have b: "\<forall>a \<in> set (last colors). \<bar>a\<bar> \<le> 2 ^ 53"
    using ne k by (simp add: last_conv_nth)
  have t: "trunc (real_of_int k) = k" by (rule trunc_of_int)
  have m: "min (k + 1) k = k" by simp
  show ?thesis
    using blend_weight_zero [OF fl refl b]
    by (simp add: color_at_position_def Let_def k_def [symmetric] ex t m z row)
qed

lemma palette_default: "palette default_color_range"
  by (simp add: palette_def default_color_range_def)

section \<open>The claims\<close>

text \<open>
  C1. For every tag mapping and scale factor, \<open>estimate_building_height\<close> follows the
  ordered fallback chain: when the \<open>height\<close> tag parses (leading token, unit discarded)
  the result is that number times the factor; otherwise, when \<open>building:levels\<close> parses,
  it is the levels times 3 times the factor; otherwise it is the base-height entry for the
  value of \<open>building\<close> (8 when unrecognised) times the factor. The three examples of the
  specification follow: \<open>12.5 m\<close> with factor 2 gives 25, \<open>office\<close> gives 15 times the
  factor, 4 levels give 12 times the factor.
\<close>

theorem estimate_building_height_fallback_chain:
  "estimate_building_height to_float tgs f =
     (case height_tag_number to_float tgs of
        Some h \<Rightarrow> h * f
      | None \<Rightarrow>
          (case levels_tag_number to_float tgs of
             Some l \<Rightarrow> l * 3 * f
           | None \<Rightarrow> base_height_entry tgs * f))
   \<and> (to_float ''12.5'' = Some (25 / 2) \<longrightarrow>
        estimate_building_height to_float [(''building'', ''yes''), (''height'', ''12.5 m'')] 2 = 25)
   \<and> estimate_building_height to_float [(''building'', ''office'')] f = 15 * f
   \<and> (to_float ''4'' = Some 4 \<longrightarrow>
        estimate_building_height to_float [(''building'', ''yes''), (''building:levels'', ''4'')] f = 12 * f)"
proof (intro conjI impI)
  show "estimate_building_height to_float tgs f =
     (case height_tag_number to_float tgs of
        Some h \<Rightarrow> h * f
      | None \<Rightarrow>
          (case levels_tag_number to_float tgs of
             Some l \<Rightarrow> l * 3 * f
           | None \<Rightarrow> base_height_entry tgs * f))"
    by (simp add: estimate_building_height_def levels_height_def type_height_def try_height_def
        try_levels_def height_tag_number_def levels_tag_number_def base_height_entry_def
        get_default_def base_heights_yes split: option.splits list.splits)
next
  assume "to_float ''12.5'' = Some (25 / 2)"
  then show "estimate_building_height to_float [(''building'', ''yes''), (''height'', ''12.5 m'')] 2 = 25"
    by (simp add: estimate_building_height_def try_height_def split_def is_space_def)
next
  show "estimate_building_height to_float [(''building'', ''office'')] f = 15 * f"
    by (simp add: estimate_building_height_def levels_height_def type_height_def get_default_def
        base_heights_def)
next
  assume "to_float ''4'' = Some 4"
  then show "estimate_building_height to_float [(''building'', ''yes''), (''building:levels'', ''4'')] f = 12 * f"
    by (simp add: estimate_building_height_def levels_height_def try_levels_def)
qed

theorem estimate_building_height_fallback_chain_witness:
  "decimal_literal ''12.5'' = Some (25 / 2) \<and> decimal_literal ''4'' = Some 4 \<and>
   estimate_building_height decimal_literal [(''building'', ''yes''), (''height'', ''12.5 m'')] 2 = 25 \<and>
   estimate_building_height decimal_literal [(''building'', ''office'')] 2 = 30 \<and>
   estimate_building_height decimal_literal [(''building'', ''yes''), (''building:levels'', ''4'')] 2 = 24"
  using estimate_building_height_fallback_chain [of decimal_literal "[]" 2]
    decimal_literal_12_5 decimal_literal_4
  by simp

text \<open>
  C2. For every way with a non-empty derived coordinate sequence exactly one branch fires,
  in this order: \<open>building\<close> present, the way becomes a building (also when \<open>highway\<close> is
  present); else \<open>highway\<close> present, a road; else the coordinate sequence closed (first
  equals last), a polygon; else no feature. Each branch appends one entry to its own list
  and leaves the other two lists as they are.
\<close>

theorem process_way_classification:
  "way_coords e \<noteq> [] \<Longrightarrow>
   process_way to_float e (bs, rs, ps) f =
     (case classify_way (element_tags e) (way_coords e) of
        AsBuilding \<Rightarrow> (process_building to_float e (way_coords e) bs f, rs, ps)
      | AsRoad \<Rightarrow> (bs, process_road e (way_coords e) rs, ps)
      | AsPolygon \<Rightarrow> (bs, rs, process_polygon e (way_coords e) ps)
      | Dropped \<Rightarrow> (bs, rs, ps))
   \<and> length (process_building to_float e (way_coords e) bs f) = Suc (length bs)
   \<and> length (process_road e (way_coords e) rs) = Suc (length rs)
   \<and> length (process_polygon e (way_coords e) ps) = Suc (length ps)"
  using way_coords_geometry [of e]
  by (simp add: process_way_def classify_way_def has_key_iff Let_def process_building_def
      process_road_def process_polygon_def)

theorem process_way_classification_witness:
  "way_coords closed_way \<noteq> [] \<and>
   classify_way (element_tags closed_way) (way_coords closed_way) = AsBuilding \<and>
   process_way decimal_literal closed_way ([], [], []) 1 =
     (process_building decimal_literal closed_way (way_coords closed_way) [] 1, [], [])"
  using process_way_classification [of closed_way decimal_literal "[]" "[]" "[]" 1]
  by (simp add: closed_way_coords classify_way_def closed_way_tags)

text \<open>
  C10. A way element without the key \<open>nodes\<close> produces no feature of any kind: the loop
  body leaves the four lists as they are, and the result of the loop is the one the list
  without that element gives. This holds also when the way carries a non-empty
  \<open>geometry\<close>, from which the coordinates would be read.
\<close>

theorem way_without_nodes_dropped:
  "el_type e = Some ''way'' \<and> el_nodes e = None \<longrightarrow>
     process_element to_float f e acc = Inr acc \<and>
     process_elements to_float f (es1 @ e # es2) acc = process_elements to_float f (es1 @ es2) acc"
proof (intro impI conjI)
  assume a: "el_type e = Some ''way'' \<and> el_nodes e = None"
  then show one: "process_element to_float f e acc = Inr acc" for acc
    by (cases acc) (simp add: process_element_def)
  show "process_elements to_float f (es1 @ e # es2) acc = process_elements to_float f (es1 @ es2) acc"
    by (induction es1 arbitrary: acc) (simp_all add: one split: sum.splits)
qed

theorem way_without_nodes_dropped_witness:
  "el_type closed_way = Some ''way'' \<and> el_nodes closed_way = None \<and>
   el_geometry closed_way \<noteq> None \<and> way_coords closed_way \<noteq> [] \<and>
   process_element decimal_literal 1 closed_way ([], [], [], []) = Inr ([], [], [], []) \<and>
   process_overpass_results decimal_literal (\<lambda>x. x) default_settings (\<lambda>l. Failed) [] (Some [closed_way]) 1 =
     Inr (Some \<lparr> res_buildings = [], res_roads = [], res_points = [], res_polygons = [],
                  res_terrain_elevation = 0 \<rparr>, [])"
  using way_without_nodes_dropped [of closed_way decimal_literal 1 "([], [], [], [])" "[]" "[]"]
    closed_way_nodes
  by (simp add: closed_way_coords process_overpass_results_def default_settings_def)
    (simp add: closed_way_def)

text \<open>
  C4, as stated: the type of a tagged node is the value of the first of \<open>amenity\<close>,
  \<open>shop\<close>, \<open>tourism\<close>, \<open>historic\<close>, \<open>leisure\<close> that is present. It fails on a node whose
  \<open>amenity\<close> is the empty string: the key is present and is the first match, and the code
  takes \<open>shop\<close>.
\<close>

theorem node_type_key_presence_counterexample:
  "point_types (process_node (node_with [(''amenity'', ''''), (''shop'', ''bakery'')]) []) = Some [''bakery'']
   \<and> point_type_by_presence [(''amenity'', ''''), (''shop'', ''bakery'')] = ''''"
  by (simp add: point_types_def process_node_def node_with_sel get_or_def point_type_by_presence_def Let_def)

text \<open>
  C4, amended: for every node carrying at least one tag, the type is the value of the first
  of \<open>amenity\<close>, \<open>shop\<close>, \<open>tourism\<close>, \<open>historic\<close>, \<open>leisure\<close>, in this order, that is present
  with a non-empty value, and \<open>point\<close> when there is none. A node tagged
  \<open>amenity = cafe\<close>, \<open>shop = bakery\<close> gets the type \<open>cafe\<close>.
\<close>

theorem node_type_priority:
  "(element_tags e \<noteq> [] \<and> el_lon e = Some lo \<and> el_lat e = Some la \<longrightarrow>
      (\<exists>p. process_node e pts = Inr (pts @ [p]) \<and>
           p_type p = first_nonempty (element_tags e) priority_keys ''point'' \<and>
           p_tags p = element_tags e \<and> p_coordinates p = (lo, la)))
   \<and> point_types (process_node (node_with [(''amenity'', ''cafe''), (''shop'', ''bakery'')]) []) = Some [''cafe'']"
  by (simp add: point_types_def process_node_def node_with_sel get_or_def priority_keys_def Let_def
      split: option.splits)

theorem node_type_priority_witness:
  "element_tags (node_with [(''shop'', ''bakery''), (''amenity'', ''cafe'')]) \<noteq> [] \<and>
   point_types (process_node (node_with [(''shop'', ''bakery''), (''amenity'', ''cafe'')]) []) = Some [''cafe'']"
  using node_type_priority [of "node_with [(''shop'', ''bakery''), (''amenity'', ''cafe'')]" 0 0 "[]"]
  by (auto simp add: node_with_sel point_types_def priority_keys_def)

text \<open>
  C7, as stated: the \<open>normalize\<close> function of a colour scale maps every value into
  \<open>[0, 1]\<close>. On the domain \<open>[0, 10]\<close> it maps 20 to 2: the function does not clamp.
\<close>

theorem normalize_not_clamped_counterexample:
  "normalize (generate_color_scale (\<lambda>x. x) 0 10 None) 20 = 2"
  by (simp add: generate_color_scale_def)

text \<open>
  C7, amended: \<open>normalize\<close> is the affine map \<open>(x - min_value) / (max_value - min_value)\<close>
  (\<open>x - min_value\<close> on a degenerate domain), without clamping; when \<open>min_value < max_value\<close>
  it maps every value of the domain into \<open>[0, 1]\<close>.
\<close>

theorem normalize_in_domain:
  "normalize (generate_color_scale fl min_v max_v cr) x =
     (if max_v = min_v then x - min_v else (x - min_v) / (max_v - min_v))
   \<and> (min_v < max_v \<and> min_v \<le> x \<and> x \<le> max_v \<longrightarrow>
        0 \<le> normalize (generate_color_scale fl min_v max_v cr) x \<and>
        normalize (generate_color_scale fl min_v max_v cr) x \<le> 1)"
  by (simp add: generate_color_scale_def Let_def)

theorem normalize_in_domain_witness:
  "(0::real) < 10 \<and> (0::real) \<le> 5 \<and> (5::real) \<le> 10 \<and>
   0 \<le> normalize (generate_color_scale (\<lambda>x. x) 0 10 None) 5 \<and>
   normalize (generate_color_scale (\<lambda>x. x) 0 10 None) 5 \<le> 1"
  using normalize_in_domain [of "\<lambda>x. x" 0 10 None 5]
  by simp

text \<open>
  C8 asks that \<open>filter_by_tags\<close> with an empty mapping return a collection equal to the
  input, and with any mapping the features whose tags match every requested pair. The
  code does not get there: \<open>filter_by_tags\<close> returns nothing for any collection and any
  mapping, the empty one included, because importing \<open>models/geo_data.py\<close> raises
  \<open>TypeError\<close>. \<open>GeoFeature\<close> is created, with \<open>tags\<close> as its one field with a default;
  \<open>Point(GeoFeature)\<close> adds the field \<open>coordinate\<close> without a default after it, and the
  \<open>@dataclass\<close> decorator of \<open>Point\<close> (line 109) raises. \<open>GeoDataCollection\<close> is never
  defined.
\<close>

theorem filter_by_tags_import_fails:
  "dataclass [] GeoFeature_fields = Inr GeoFeature_fields
   \<and> dataclass GeoFeature_fields Point_fields = Inl TypeError
   \<and> import_geo_data = Inl TypeError
   \<and> filter_by_tags c [] = Inl TypeError
   \<and> filter_by_tags c wanted = Inl TypeError"
proof -
  have base: "dataclass [] GeoFeature_fields = Inr GeoFeature_fields"
    by (simp add: dataclass_def GeoFeature_fields_def)
  have point: "dataclass GeoFeature_fields Point_fields = Inl TypeError"
    by (simp add: dataclass_def GeoFeature_fields_def Point_fields_def)
  have before: "dataclass [] Coordinate_fields = Inr Coordinate_fields"
    "dataclass [] BoundingBox_fields = Inr BoundingBox_fields"
    "dataclass [] OSMTag_fields = Inr OSMTag_fields"
    by (simp_all add: dataclass_def Coordinate_fields_def BoundingBox_fields_def OSMTag_fields_def)
  have load: "import_geo_data = Inl TypeError"
    by (simp add: import_geo_data_def before base point)
  have "filter_by_tags c' w = Inl TypeError" for c' w
    unfolding filter_by_tags_def load by simp
  with base point load show ?thesis
    by simp
qed

text \<open>
  The body of the method is as the specification words it, for what that is worth once
  the classes can be created: with an empty mapping it rebuilds the collection, and with
  any mapping it keeps, in each of the four lists and in their order, exactly the features
  for which every requested key-value pair matches, and the terrain elevation.
\<close>

lemma filter_by_tags_body_spec:
  "filter_by_tags_body c [] = c
   \<and> buildings (filter_by_tags_body c wanted) = filter (\<lambda>b. requested_pairs_match wanted (tags b)) (buildings c)
   \<and> roads (filter_by_tags_body c wanted) = filter (\<lambda>r. requested_pairs_match wanted (tags r)) (roads c)
   \<and> points (filter_by_tags_body c wanted) = filter (\<lambda>p. requested_pairs_match wanted (tags p)) (points c)
   \<and> polygons (filter_by_tags_body c wanted) = filter (\<lambda>p. requested_pairs_match wanted (tags p)) (polygons c)
   \<and> terrain_elevation (filter_by_tags_body c wanted) = terrain_elevation c"
  by (simp add: filter_by_tags_body_def matches_tags_iff) (simp add: requested_pairs_match_def)

lemma filter_by_tags_body_example:
  "buildings (filter_by_tags_body two_buildings [(''name'', ''Office''), (''building'', ''house'')]) = [house]
   \<and> filter_by_tags_body two_buildings [] = two_buildings"
  using filter_by_tags_body_spec [of two_buildings "[(''name'', ''Office''), (''building'', ''house'')]"]
  by (simp add: requested_pairs_match_def two_buildings_def office_def house_def)




text \<open>
  A 429 response whose \<open>Retry-After\<close> is not an integer makes \<open>int\<close> raise inside the
  handler, and the exception leaves \<open>query_overpass\<close>.
\<close>

lemma http_date_hint_raises:
  "returned (query_overpass default_settings (\<lambda>j. HTTPError 429 BadHeader :: string attempt) 0 0 [] ''q'')
     = Inl ValueError"
  by (simp add: query_overpass_def cache_hit_def default_settings_def retry_loop.simps
        retry_after_seconds_def)

text \<open>
  A 429 response that asks for a pause of 10000000000 seconds makes \<open>time.sleep\<close> raise
  \<open>OverflowError\<close>, and the exception leaves \<open>query_overpass\<close> as well.
\<close>

lemma long_hint_raises:
  "returned (query_overpass default_settings long_hint 0 0 [] ''q'') = Inl OverflowError"
  by (simp add: query_overpass_def cache_hit_def default_settings_def retry_loop.simps
        retry_after_seconds_def long_hint_def sleep_def sleep_max_def)

text \<open>
  C3, as stated: the result has the length of the input. With the default maximum of 100
  points, 101 coordinates give 100 elevations.
\<close>

theorem downsampled_length_counterexample:
  "get_elevation_data (\<lambda>x. x) default_settings (\<lambda>l. Failed) [] (replicate 101 (0, 0)) =
     Inr \<lparr> elevations = replicate 100 0, cache_after = [],
           requested = Some (replicate 100 \<lparr> latitude = 0, longitude = 0 \<rparr>) \<rparr>"
proof -
  let ?cs = "replicate 101 (0::real, 0::real)"
  have small: "length ?cs * MAX_ELEVATION_POINTS default_settings \<le> 2 ^ 51"
    by (simp add: default_settings_def)
  have r: "get_elevation_data (\<lambda>x. x) default_settings (\<lambda>l. Failed) [] ?cs =
        Inr (fetch_elevations default_settings (\<lambda>l. Failed) [] (kept_coords (\<lambda>x. x) default_settings ?cs))"
    using ieee_rounding_exact small by (rule get_elevation_data_returns)
  have "\<forall>j \<in> set (linspace_int (\<lambda>x. x) 100 100). j \<le> 100"
    by (intro linspace_in_range ieee_rounding_exact) simp_all
  then have "map (\<lambda>i. ?cs ! i) (linspace_int (\<lambda>x. x) 100 100) =
             map (\<lambda>i. (0, 0)) (linspace_int (\<lambda>x. x) 100 100)"
    by (intro map_cong) auto
  then have k: "kept_coords (\<lambda>x. x) default_settings ?cs = replicate 100 (0, 0)"
    by (simp add: kept_coords_def default_settings_def map_replicate_const linspace_length)
  let ?out = "fetch_elevations default_settings (\<lambda>l. Failed) [] (replicate 100 (0, 0))"
  have "elevations ?out = replicate 100 0"
    using fetch_elevations_failed(1) [of "\<lambda>l. Failed" default_settings "[]" "replicate 100 (0, 0)"]
    by (simp add: cached_or_zero_def cached_def map_replicate_const)
  moreover have "cache_after ?out = []"
    using fetch_elevations_failed(2) [of "\<lambda>l. Failed" default_settings "[]"] by simp
  moreover have "requested ?out = Some (replicate 100 \<lparr> latitude = 0, longitude = 0 \<rparr>)"
    using fetch_elevations_requested [of "[]" "replicate 100 (0, 0)" default_settings "\<lambda>l. Failed"]
    by (simp add: to_location_def)
  ultimately have "?out = \<lparr> elevations = replicate 100 0, cache_after = [],
           requested = Some (replicate 100 \<lparr> latitude = 0, longitude = 0 \<rparr>) \<rparr>"
    by (cases ?out) simp
  with r k show ?thesis by simp
qed

text \<open>
  C3, amended: \<open>get_elevation_data\<close> returns normally, with one elevation, a number and
  never null, for each coordinate it keeps, in their order: the whole input when it has at
  most \<open>MAX_ELEVATION_POINTS\<close> entries, else the \<open>MAX_ELEVATION_POINTS\<close> entries of the
  sample, so the result has \<open>min (len input) MAX_ELEVATION_POINTS\<close> entries. The elevation
  of a kept coordinate that is cached is the cached number (0 for a cached \<open>null\<close>). The
  others, the misses, are requested from the provider in one request, in their order, and
  no request is made when there is none; the \<open>k\<close>-th miss gets the elevation of the
  \<open>k\<close>-th result (0 when that has no elevation or \<open>null\<close>), the results counting up to the
  first that is not an object, and a miss without a result gets 0. When the request fails
  every miss gets 0 and the cache is unchanged; with an empty cache the result is then a
  list of that many zeros. (The bound on the length keeps the binary64 index arithmetic of
  the sample exact to within one.)
\<close>

theorem get_elevation_data_degrades:
  "ieee_rounding fl \<and> length cs * MAX_ELEVATION_POINTS cfg \<le> 2 ^ 51 \<longrightarrow>
     (\<exists>out. get_elevation_data fl cfg provider cache cs = Inr out \<and>
        length (elevations out) = min (length cs) (MAX_ELEVATION_POINTS cfg) \<and>
        elevations out =
          fill cfg cache (kept_coords fl cfg cs)
            (reply_elevations (provider (map to_location (misses cfg cache (kept_coords fl cfg cs))))) \<and>
        requested out =
          (if misses cfg cache (kept_coords fl cfg cs) = [] then None
           else Some (map to_location (misses cfg cache (kept_coords fl cfg cs)))) \<and>
        (provider (map to_location (misses cfg cache (kept_coords fl cfg cs))) = Failed \<longrightarrow>
           elevations out = map (cached_or_zero cfg cache) (kept_coords fl cfg cs) \<and>
           cache_after out = cache \<and>
           (cache = [] \<longrightarrow> elevations out = replicate (min (length cs) (MAX_ELEVATION_POINTS cfg)) 0)))"
proof (intro impI)
  assume a: "ieee_rounding fl \<and> length cs * MAX_ELEVATION_POINTS cfg \<le> 2 ^ 51"
  let ?kept = "kept_coords fl cfg cs"
  let ?out = "fetch_elevations cfg provider cache ?kept"
  from a have r: "get_elevation_data fl cfg provider cache cs = Inr ?out"
    by (intro get_elevation_data_returns) simp_all
  have len: "length (elevations ?out) = min (length cs) (MAX_ELEVATION_POINTS cfg)"
    by (simp add: fetch_elevations_length length_kept_coords)
  have content: "elevations ?out =
      fill cfg cache ?kept (reply_elevations (provider (map to_location (misses cfg cache ?kept))))"
    by (rule fetch_elevations_content)
  have req: "requested ?out =
      (if misses cfg cache ?kept = [] then None else Some (map to_location (misses cfg cache ?kept)))"
    by (rule fetch_elevations_request)
  have z: "map (cached_or_zero cfg []) xs = replicate (length xs) 0" for xs
    by (induction xs) (simp_all add: cached_or_zero_def cached_def)
  have failed: "elevations ?out = map (cached_or_zero cfg cache) ?kept \<and> cache_after ?out = cache \<and>
      (cache = [] \<longrightarrow> elevations ?out = replicate (min (length cs) (MAX_ELEVATION_POINTS cfg)) 0)"
    if f: "provider (map to_location (misses cfg cache ?kept)) = Failed"
  proof -
    from f have e: "elevations ?out = map (cached_or_zero cfg cache) ?kept"
      by (rule fetch_elevations_failed(1))
    from f have c: "cache_after ?out = cache"
      by (rule fetch_elevations_failed(2))
    from e have "cache = [] \<longrightarrow> elevations ?out = replicate (min (length cs) (MAX_ELEVATION_POINTS cfg)) 0"
      by (auto simp add: z length_kept_coords)
    with e c show ?thesis by blast
  qed
  show "\<exists>out. get_elevation_data fl cfg provider cache cs = Inr out \<and>
        length (elevations out) = min (length cs) (MAX_ELEVATION_POINTS cfg) \<and>
        elevations out =
          fill cfg cache (kept_coords fl cfg cs)
            (reply_elevations (provider (map to_location (misses cfg cache (kept_coords fl cfg cs))))) \<and>
        requested out =
          (if misses cfg cache (kept_coords fl cfg cs) = [] then None
           else Some (map to_location (misses cfg cache (kept_coords fl cfg cs)))) \<and>
        (provider (map to_location (misses cfg cache (kept_coords fl cfg cs))) = Failed \<longrightarrow>
           elevations out = map (cached_or_zero cfg cache) (kept_coords fl cfg cs) \<and>
           cache_after out = cache \<and>
           (cache = [] \<longrightarrow> elevations out = replicate (min (length cs) (MAX_ELEVATION_POINTS cfg)) 0))"
    using r len content req failed by (intro exI [of _ ?out]) blast
qed

theorem get_elevation_data_degrades_witness:
  "ieee_rounding (\<lambda>x. x) \<and> length near_origin * MAX_ELEVATION_POINTS default_settings \<le> 2 ^ 51 \<and>
   (\<exists>out. get_elevation_data (\<lambda>x. x) default_settings two_answers one_cached near_origin = Inr out \<and>
      elevations out = [7, 5, 9] \<and>
      requested out = Some [\<lparr> latitude = 0, longitude = 0 \<rparr>, \<lparr> latitude = 0, longitude = 2 \<rparr>]) \<and>
   (\<exists>out. get_elevation_data (\<lambda>x. x) default_settings (\<lambda>l. Failed) one_cached near_origin = Inr out \<and>
      elevations out = [0, 5, 0] \<and> cache_after out = one_cached) \<and>
   (\<exists>out. get_elevation_data (\<lambda>x. x) default_settings (\<lambda>l. Failed) [] near_origin = Inr out \<and>
      elevations out = [0, 0, 0] \<and> cache_after out = [])"
proof -
  have h: "ieee_rounding (\<lambda>x. x) \<and> length near_origin * MAX_ELEVATION_POINTS default_settings \<le> 2 ^ 51"
    by (simp add: ieee_rounding_exact near_origin_def default_settings_def)
  have k: "kept_coords (\<lambda>x. x) default_settings near_origin = near_origin"
    by (simp add: kept_coords_def near_origin_def default_settings_def)
  have m: "misses default_settings one_cached near_origin = [(0, 0), (2, 0)]"
    by (simp add: misses_def near_origin_def near_origin_cached)
  have c: "map (cached_or_zero default_settings one_cached) near_origin = [0, 5, 0]"
    by (simp add: cached_or_zero_def near_origin_def near_origin_cached)
  have f: "fill default_settings one_cached near_origin [7, 9] = [7, 5, 9]"
    by (simp add: near_origin_def near_origin_cached)
  have t: "reply_elevations (two_answers l) = [7, 9]" for l
    by (simp add: reply_elevations_def two_answers_def is_object_def result_elevation_def)
  have n: "min (length near_origin) (MAX_ELEVATION_POINTS default_settings) = 3"
    by (simp add: near_origin_def default_settings_def)
  from get_elevation_data_degrades [of "\<lambda>x. x" near_origin default_settings two_answers one_cached] h
  have a1: "\<exists>out. get_elevation_data (\<lambda>x. x) default_settings two_answers one_cached near_origin = Inr out \<and>
      elevations out = [7, 5, 9] \<and>
      requested out = Some [\<lparr> latitude = 0, longitude = 0 \<rparr>, \<lparr> latitude = 0, longitude = 2 \<rparr>]"
    by (auto simp add: k m t f to_location_def)
  from get_elevation_data_degrades [of "\<lambda>x. x" near_origin default_settings "\<lambda>l. Failed" one_cached] h
  have a2: "\<exists>out. get_elevation_data (\<lambda>x. x) default_settings (\<lambda>l. Failed) one_cached near_origin = Inr out \<and>
      elevations out = [0, 5, 0] \<and> cache_after out = one_cached"
    by (auto simp add: k c)
  from get_elevation_data_degrades [of "\<lambda>x. x" near_origin default_settings "\<lambda>l. Failed" "[]"] h
  have a3: "\<exists>out. get_elevation_data (\<lambda>x. x) default_settings (\<lambda>l. Failed) [] near_origin = Inr out \<and>
      elevations out = [0, 0, 0] \<and> cache_after out = []"
    by (auto simp add: n numeral_3_eq_3)
  from h a1 a2 a3 show ?thesis by blast
qed

text \<open>
  C5. A list longer than the maximum is downsampled by even index selection over its whole
  span, not cut to a prefix: the function goes on with the coordinates at the indices
  \<open>np.linspace(0, len - 1, max, dtype=int)\<close>. There are \<open>max\<close> of them, in increasing
  order and inside the list; the \<open>i\<close>-th is the evenly spaced position
  \<open>i * (len - 1) div (max - 1)\<close> or, by rounding, the one before it; with \<open>max\<close> at least 2
  the first is 0 and the last is \<open>len - 1\<close>, so they are not the first \<open>max\<close> indices.
  With an empty cache these coordinates are the ones requested. The witness takes 250
  coordinates and the default maximum of 100.
\<close>

theorem get_elevation_data_downsamples:
  "ieee_rounding fl \<and> MAX_ELEVATION_POINTS cfg < length cs \<and>
   length cs * MAX_ELEVATION_POINTS cfg \<le> 2 ^ 51 \<longrightarrow>
     (let num = MAX_ELEVATION_POINTS cfg; stop = length cs - 1; idxs = linspace_int fl stop num
      in get_elevation_data fl cfg provider cache cs =
           Inr (fetch_elevations cfg provider cache (map (\<lambda>i. cs ! i) idxs)) \<and>
         length idxs = num \<and> sorted idxs \<and> (\<forall>j \<in> set idxs. j < length cs) \<and>
         (\<forall>i < num. idxs ! i \<le> (i * stop) div (num - 1) \<and> (i * stop) div (num - 1) \<le> Suc (idxs ! i)) \<and>
         (2 \<le> num \<longrightarrow> hd idxs = 0 \<and> last idxs = stop \<and> idxs \<noteq> [0..<num]) \<and>
         (cache = [] \<and> 0 < num \<longrightarrow>
            requested (fetch_elevations cfg provider cache (map (\<lambda>i. cs ! i) idxs)) =
              Some (map (\<lambda>i. to_location (cs ! i)) idxs)))"
proof (intro impI)
  assume a: "ieee_rounding fl \<and> MAX_ELEVATION_POINTS cfg < length cs \<and>
   length cs * MAX_ELEVATION_POINTS cfg \<le> 2 ^ 51"
  define num where "num = MAX_ELEVATION_POINTS cfg"
  define stop where "stop = length cs - 1"
  define idxs where "idxs = linspace_int fl stop num"
  from a have fl: "ieee_rounding fl" and lt: "num < length cs"
    and small': "length cs * num \<le> 2 ^ 51" by (simp_all add: num_def)
  have num: "num \<le> stop" using lt by (simp add: stop_def)
  have "stop * num \<le> length cs * num" unfolding stop_def by (intro mult_le_mono) simp_all
  from this small' have small: "stop * num \<le> 2 ^ 51" by (rule order_trans)
  have len: "length idxs = num" by (simp add: idxs_def linspace_length)
  have ret: "get_elevation_data fl cfg provider cache cs =
           Inr (fetch_elevations cfg provider cache (map (\<lambda>i. cs ! i) idxs))"
    using get_elevation_data_returns [of fl cs cfg provider cache] a lt
    by (simp add: kept_coords_def idxs_def stop_def num_def)
  have srt: "sorted idxs" unfolding idxs_def using fl num small by (rule linspace_sorted)
  have rng: "\<forall>j \<in> set idxs. j < length cs"
    using linspace_in_range [OF fl num small] lt by (fastforce simp: idxs_def stop_def)
  have near: "idxs ! i \<le> (i * stop) div (num - 1) \<and> (i * stop) div (num - 1) \<le> Suc (idxs ! i)"
    if i: "i < num" for i
  proof (cases "2 \<le> num")
    case True
    from linspace_index_near [OF fl True num small i] show ?thesis
      by (simp add: idxs_def linspace_nth [OF True i])
  next
    case False
    with i have "num = 1" "i = 0" by simp_all
    then show ?thesis by (simp add: idxs_def linspace_int_def)
  qed
  have ends: "hd idxs = 0 \<and> last idxs = stop \<and> idxs \<noteq> [0..<num]" if two: "2 \<le> num"
  proof -
    from linspace_ends [OF fl two num] have e: "hd idxs = 0" "last idxs = stop"
      by (simp_all add: idxs_def)
    have "last [0..<num] = num - 1" using two by simp
    with e(2) num two have "idxs \<noteq> [0..<num]" by auto
    with e show ?thesis by simp
  qed
  have req: "requested (fetch_elevations cfg provider cache (map (\<lambda>i. cs ! i) idxs)) =
              Some (map (\<lambda>i. to_location (cs ! i)) idxs)" if "cache = []" "0 < num"
  proof -
    from that len have "map (\<lambda>i. cs ! i) idxs \<noteq> []" by auto
    from fetch_elevations_requested [OF that(1) this, of cfg provider] show ?thesis
      by (simp add: comp_def)
  qed
  show "let num = MAX_ELEVATION_POINTS cfg; stop = length cs - 1; idxs = linspace_int fl stop num
      in get_elevation_data fl cfg provider cache cs =
           Inr (fetch_elevations cfg provider cache (map (\<lambda>i. cs ! i) idxs)) \<and>
         length idxs = num \<and> sorted idxs \<and> (\<forall>j \<in> set idxs. j < length cs) \<and>
         (\<forall>i < num. idxs ! i \<le> (i * stop) div (num - 1) \<and> (i * stop) div (num - 1) \<le> Suc (idxs ! i)) \<and>
         (2 \<le> num \<longrightarrow> hd idxs = 0 \<and> last idxs = stop \<and> idxs \<noteq> [0..<num]) \<and>
         (cache = [] \<and> 0 < num \<longrightarrow>
            requested (fetch_elevations cfg provider cache (map (\<lambda>i. cs ! i) idxs)) =
              Some (map (\<lambda>i. to_location (cs ! i)) idxs))"
    unfolding Let_def num_def [symmetric] stop_def [symmetric] idxs_def [symmetric]
    using ret len srt rng near ends req by blast
qed

theorem get_elevation_data_downsamples_witness:
  "ieee_rounding (\<lambda>x. x) \<and> MAX_ELEVATION_POINTS default_settings < length (track 250) \<and>
   length (track 250) * MAX_ELEVATION_POINTS default_settings \<le> 2 ^ 51 \<and>
   length (linspace_int (\<lambda>x. x) 249 100) = 100 \<and>
   hd (linspace_int (\<lambda>x. x) 249 100) = 0 \<and>
   last (linspace_int (\<lambda>x. x) 249 100) = 249 \<and>
   linspace_int (\<lambda>x. x) 249 100 \<noteq> [0..<100] \<and>
   get_elevation_data (\<lambda>x. x) default_settings (\<lambda>l. Failed) [] (track 250) =
     Inr (fetch_elevations default_settings (\<lambda>l. Failed) []
            (map (\<lambda>i. track 250 ! i) (linspace_int (\<lambda>x. x) 249 100)))"
proof -
  have m: "MAX_ELEVATION_POINTS default_settings = 100" by (simp add: default_settings_def)
  have h: "ieee_rounding (\<lambda>x. x) \<and> MAX_ELEVATION_POINTS default_settings < length (track 250) \<and>
   length (track 250) * MAX_ELEVATION_POINTS default_settings \<le> 2 ^ 51"
    by (simp add: ieee_rounding_exact track_length m)
  from get_elevation_data_downsamples [of "\<lambda>x. x" default_settings "track 250" "\<lambda>l. Failed" "[]"] h
  show ?thesis by (simp add: Let_def m track_length)
qed

text \<open>
  C6. For every palette and every domain with \<open>min_value < max_value\<close>,
  \<open>get_color_for_value\<close> at \<open>min_value\<close> returns the first anchor colour with the alpha
  255 appended and at \<open>max_value\<close> the last one; a value above \<open>max_value\<close> is clamped
  to the last anchor, a value below \<open>min_value\<close> to the first. When \<open>min_value\<close> equals
  \<open>max_value\<close> every value gets the colour of the position 0.5. (The difference
  \<open>max_value - min_value\<close> of two distinct binary64 numbers does not round to zero; the
  model, whose values are reals, assumes it.)
\<close>

theorem get_color_for_value_boundaries:
  "(ieee_rounding fl \<and> palette colors \<and> min_v < max_v \<and> fl (max_v - min_v) \<noteq> 0 \<longrightarrow>
      get_color_for_value fl min_v min_v max_v colors = Inr (hd colors @ [255]) \<and>
      get_color_for_value fl max_v min_v max_v colors = Inr (last colors @ [255]) \<and>
      (max_v \<le> v \<longrightarrow> get_color_for_value fl v min_v max_v colors = Inr (last colors @ [255])) \<and>
      (v \<le> min_v \<longrightarrow> get_color_for_value fl v min_v max_v colors = Inr (hd colors @ [255])))
   \<and> (ieee_rounding fl \<longrightarrow>
        get_color_for_value fl v min_v min_v colors = color_at_position fl (1 / 2) colors)"
proof (intro conjI impI)
  assume "ieee_rounding fl"
  then have "fl 0 = 0" using ieee_int [of fl 0] by simp
  then show "get_color_for_value fl v min_v min_v colors = color_at_position fl (1 / 2) colors"
    by (simp add: get_color_for_value_position)
next
  assume a: "ieee_rounding fl \<and> palette colors \<and> min_v < max_v \<and> fl (max_v - min_v) \<noteq> 0"
  then have fl: "ieee_rounding fl" and p: "palette colors" by simp_all
  have mono: "x \<le> y \<Longrightarrow> fl x \<le> fl y" for x y using fl by (simp add: ieee_rounding_def)
  have z: "fl 0 = 0" and o: "fl 1 = 1"
    using ieee_int [OF fl, of 0] ieee_int [OF fl, of 1] by simp_all
  define r where "r = fl (max_v - min_v)"
  have "fl 0 \<le> r" unfolding r_def using a by (intro mono) simp
  with a z have r: "0 < r" by (simp add: r_def)
  have low: "get_color_for_value fl w min_v max_v colors = Inr (hd colors @ [255])" if "w \<le> min_v" for w
  proof -
    have "fl (w - min_v) \<le> fl 0" using that by (intro mono) simp
    then have "fl (w - min_v) / r \<le> 0" using r z by (simp add: divide_le_0_iff)
    then have "fl (fl (w - min_v) / r) \<le> 0" using mono [of "fl (w - min_v) / r" 0] z by simp
    then have "max 0 (min 1 (fl (fl (w - min_v) / r))) = 0" by simp
    then show ?thesis
      using r color_at_first [OF fl p] by (simp add: get_color_for_value_position r_def [symmetric])
  qed
  have high: "get_color_for_value fl w min_v max_v colors = Inr (last colors @ [255])" if "max_v \<le> w" for w
  proof -
    have "r \<le> fl (w - min_v)" unfolding r_def using that by (intro mono) simp
    then have "1 \<le> fl (w - min_v) / r" using r by (simp add: pos_le_divide_eq)
    then have "1 \<le> fl (fl (w - min_v) / r)" using mono [of 1 "fl (w - min_v) / r"] o by simp
    then have "max 0 (min 1 (fl (fl (w - min_v) / r))) = 1" by simp
    then show ?thesis
      using r color_at_last [OF fl p] by (simp add: get_color_for_value_position r_def [symmetric])
  qed
  show "get_color_for_value fl min_v min_v max_v colors = Inr (hd colors @ [255])"
    by (rule low) simp
  show "get_color_for_value fl max_v min_v max_v colors = Inr (last colors @ [255])"
    by (rule high) simp
  show "get_color_for_value fl v min_v max_v colors = Inr (last colors @ [255])" if "max_v \<le> v"
    using that by (rule high)
  show "get_color_for_value fl v min_v max_v colors = Inr (hd colors @ [255])" if "v \<le> min_v"
    using that by (rule low)
qed

theorem get_color_for_value_boundaries_witness:
  "ieee_rounding (\<lambda>x. x) \<and> palette default_color_range \<and> (0::real) < 10 \<and> (10::real) \<le> 12 \<and> (-1::real) \<le> 0 \<and>
   get_color_for_value (\<lambda>x. x) 0 0 10 default_color_range = Inr [65, 105, 225, 255] \<and>
   get_color_for_value (\<lambda>x. x) 10 0 10 default_color_range = Inr [255, 0, 0, 255] \<and>
   get_color_for_value (\<lambda>x. x) 12 0 10 default_color_range = Inr [255, 0, 0, 255] \<and>
   get_color_for_value (\<lambda>x. x) (-1) 0 10 default_color_range = Inr [65, 105, 225, 255] \<and>
   get_color_for_value (\<lambda>x. x) 3 7 7 default_color_range = color_at_position (\<lambda>x. x) (1 / 2) default_color_range"
proof -
  have h: "ieee_rounding (\<lambda>x. x) \<and> palette default_color_range \<and> (0::real) < 10 \<and> (10 - 0 :: real) \<noteq> 0"
    by (simp add: ieee_rounding_exact palette_default)
  have e: "hd default_color_range = [65, 105, 225]" "last default_color_range = [255, 0, 0]"
    by (simp_all add: default_color_range_def)
  from get_color_for_value_boundaries [of "\<lambda>x. x" default_color_range 0 10 12] h
       get_color_for_value_boundaries [of "\<lambda>x. x" default_color_range 0 10 "-1"]
       get_color_for_value_boundaries [of "\<lambda>x. x" default_color_range 7 10 3]
  show ?thesis by (simp add: e)
qed

end
